theory Spec2Isabelle
  imports Complex_Main "HOL-Library.AList"
begin

section \<open>Numbers\<close>

text \<open>
  A quantity is a JavaScript Number. The finite ones are rationals; \<open>NaN\<close> is what
  \<open>Number(undefined)\<close> and arithmetic on \<open>NaN\<close> give. Infinite values and the
  negative zero are left out. The sum and the difference of two finite numbers are the
  runtime's, which rounds them: they are the parameter \<open>ar\<close> of every operation that
  computes, so that what is proved of an operation holds however the runtime rounds.
  Comparisons and \<open>Math.max\<close> do not round.
\<close>

datatype number = Num rat | NaN

record arith =
  float_add :: "rat \<Rightarrow> rat \<Rightarrow> rat"
  float_sub :: "rat \<Rightarrow> rat \<Rightarrow> rat"

definition number_add :: "arith \<Rightarrow> number \<Rightarrow> number \<Rightarrow> number" where
  "number_add ar a b =
     (case a of NaN \<Rightarrow> NaN | Num x \<Rightarrow> (case b of NaN \<Rightarrow> NaN | Num y \<Rightarrow> Num (float_add ar x y)))"

definition number_sub :: "arith \<Rightarrow> number \<Rightarrow> number \<Rightarrow> number" where
  "number_sub ar a b =
     (case a of NaN \<Rightarrow> NaN | Num x \<Rightarrow> (case b of NaN \<Rightarrow> NaN | Num y \<Rightarrow> Num (float_sub ar x y)))"

text \<open>\<open>Math.max(0, a)\<close>, \<open>a >= 1\<close>, \<open>a > 0\<close> and the truthiness of \<open>a\<close>.\<close>

definition Math_max_0 :: "number \<Rightarrow> number" where
  "Math_max_0 a = (case a of NaN \<Rightarrow> NaN | Num x \<Rightarrow> Num (max 0 x))"

definition ge_1 :: "number \<Rightarrow> bool" where
  "ge_1 a = (case a of NaN \<Rightarrow> False | Num x \<Rightarrow> 1 \<le> x)"

definition gt_0 :: "number \<Rightarrow> bool" where
  "gt_0 a = (case a of NaN \<Rightarrow> False | Num x \<Rightarrow> 0 < x)"

definition number_truthy :: "number \<Rightarrow> bool" where
  "number_truthy a = (case a of NaN \<Rightarrow> False | Num x \<Rightarrow> x \<noteq> 0)"

section \<open>JavaScript values and plain objects\<close>

text \<open>
  The pile configuration and the attribute arguments are plain JavaScript objects whose
  values the code tests for truthiness, compares with \<open>===\<close> and looks up by key.
  The numbers among these values are whole numbers; the quantities of items and of
  attributes are of type \<open>number\<close>. \<open>JUndefined\<close> is what a missing key reads as.
\<close>

datatype jsval = JUndefined | JNull | JBool bool | JNum int | JStr string

fun truthy :: "jsval \<Rightarrow> bool" where
  "truthy JUndefined = False"
| "truthy JNull = False"
| "truthy (JBool b) = b"
| "truthy (JNum n) = (n \<noteq> 0)"
| "truthy (JStr s) = (s \<noteq> [])"

text \<open>An object is its list of key/value entries in insertion order.\<close>

type_synonym obj = "(string \<times> jsval) list"

definition getProperty :: "obj \<Rightarrow> string \<Rightarrow> jsval" where
  "getProperty ob k = (case map_of ob k of None \<Rightarrow> JUndefined | Some v \<Rightarrow> v)"

definition hasProperty :: "obj \<Rightarrow> string \<Rightarrow> bool" where
  "hasProperty ob k = (map_of ob k \<noteq> None)"

definition setProperty :: "obj \<Rightarrow> string \<Rightarrow> jsval \<Rightarrow> obj" where
  "setProperty ob k v = AList.update k v ob"

text \<open>
  \<open>foundry.utils.mergeObject(original, other)\<close> on flat objects: every entry of
  \<open>other\<close> is written into \<open>original\<close>. \<open>foundry.utils.diffObject(original, other)\<close>
  keeps the entries of \<open>other\<close> whose value differs from the one \<open>original\<close> has
  under the same key. \<open>foundry.utils.duplicate\<close> is a deep copy, the identity on values.
\<close>

definition mergeObject :: "obj \<Rightarrow> obj \<Rightarrow> obj" where
  "mergeObject original other = fold (\<lambda>(k, v) acc. AList.update k v acc) other original"

definition diffObject :: "obj \<Rightarrow> obj \<Rightarrow> obj" where
  "diffObject original other = filter (\<lambda>(k, v). getProperty original k \<noteq> v) other"

definition isObjectEmpty :: "obj \<Rightarrow> bool" where
  "isObjectEmpty d = (d = [])"

section \<open>Documents, the world and its observable effects\<close>

type_synonym uuid = string

datatype doc_kind = TokenDocument | Actor

text \<open>One inventory line: the embedded item with its id, name, type attribute and quantity.\<close>

record item =
  item_id :: nat
  item_name :: string
  item_type :: string
  item_quantity :: number

record document =
  doc_kind :: doc_kind
  pile_flags :: obj
  doc_items :: "item list"
  doc_attributes :: "(string \<times> number) list"

datatype hook =
    PILE_PRE_OPEN | PILE_PRE_CLOSE | PILE_PRE_LOCK | PILE_PRE_UNLOCK | PILE_PRE_RATTLE
  | PILE_PRE_UPDATE | PILE_UPDATE | PILE_OPEN | PILE_CLOSE | PILE_LOCK | PILE_UNLOCK
  | PILE_RATTLE | ITEM_PRE_ADD | ITEM_ADD | ITEM_PRE_REMOVE | ITEM_REMOVE
  | ITEM_PRE_TRANSFER | ITEM_TRANSFER | ATTRIBUTE_PRE_ADD | ATTRIBUTE_PRE_REMOVE
  | ATTRIBUTE_ADD | ATTRIBUTE_REMOVE | ATTRIBUTE_TRANSFER | ATTRIBUTE_TRANSFER_ALL
  | TRANSFER_EVERYTHING

text \<open>
  What the code does besides changing documents is kept as a trace: a cancelable
  \<open>Hooks.call\<close>, a hook notification sent to every client, a sound, a macro run, the
  write of a pile's configuration, the broadcast of a diff, a re-render request, the
  deletion of a pile, the opening of the inventory window, and a handler other than
  these that is run for everyone, by its name.
\<close>

datatype event =
    HookCall hook
  | HookNotify hook
  | Sound jsval
  | MacroRun uuid string
  | Persist uuid obj
  | UpdatedPile uuid obj
  | Rerender uuid bool
  | DeletedPile uuid
  | ShowInventory uuid
  | Broadcast string

text \<open>
  The world: the documents by UUID, the macros that exist, the module settings
  \<open>deleteEmptyPiles\<close> and \<open>itemTypeFilters\<close>, the counter the host takes fresh item ids
  from, the trace, and the events of calls that were started and not awaited
  (\<open>detached\<close>): these happen after the caller went on, in the order they were started,
  and are not ordered against the later entries of the trace.
\<close>

record world =
  docs :: "uuid \<Rightarrow> document option"
  macros :: "string list"
  deleteEmptyPiles :: bool
  itemTypeFilters :: "string list"
  nextId :: nat
  trace :: "event list"
  detached :: "event list"

datatype error = TypeError | CustomError string

text \<open>
  What a call gives back: \<open>false\<close> (nothing to do), \<open>undefined\<close> after a hook veto or an
  early \<open>return\<close>, \<open>true\<close>, or the settled round-trip to the executor.
\<close>

datatype outcome = ReturnsFalse | ReturnsUndefined | ReturnsTrue | Completed

type_synonym hooks = "hook \<Rightarrow> bool"

definition emit :: "event \<Rightarrow> world \<Rightarrow> world" where
  "emit e w = w\<lparr>trace := trace w @ [e]\<rparr>"

text \<open>
  \<open>Hooks.call(name, ...)\<close> runs the consumers of a hook; it is \<open>False\<close> when one of them
  returned \<open>false\<close>. The consumers are the parameter \<open>h\<close>.
\<close>

definition Hooks_call :: "hooks \<Rightarrow> hook \<Rightarrow> world \<Rightarrow> bool \<times> world" where
  "Hooks_call h n w = (h n, emit (HookCall n) w)"

definition AudioHelper_play :: "jsval \<Rightarrow> world \<Rightarrow> world" where
  "AudioHelper_play src w = emit (Sound src) w"

text \<open>
  Modelled from the spec: \<open>lib.getItemPileData\<close>, \<open>lib.isValidItemPile\<close>,
  \<open>lib.updateItemPile\<close> and \<open>lib.getUuid\<close> live in \<open>lib/lib.js\<close>, which is not among the
  sources. The pile configuration is read as a copy of the flagged sub-object of the
  document (the empty object when there is none), a valid pile is an existing document
  whose configuration is enabled, the write stores the merged configuration, and a
  target is named by its UUID, the empty string standing for a target whose UUID
  could not be determined.
\<close>

definition getItemPileData :: "world \<Rightarrow> uuid \<Rightarrow> obj" where
  "getItemPileData w t = (case docs w t of None \<Rightarrow> [] | Some d \<Rightarrow> pile_flags d)"

definition isValidItemPile :: "world \<Rightarrow> uuid \<Rightarrow> bool" where
  "isValidItemPile w t =
     (case docs w t of None \<Rightarrow> False | Some d \<Rightarrow> truthy (getProperty (pile_flags d) ''enabled''))"

definition lib_updateItemPile :: "uuid \<Rightarrow> document \<Rightarrow> obj \<Rightarrow> world \<Rightarrow> world" where
  "lib_updateItemPile t d data w =
     emit (Persist t data) (w\<lparr>docs := (docs w)(t \<mapsto> d\<lparr>pile_flags := data\<rparr>)\<rparr>)"

section \<open>The pile macro\<close>

text \<open>
  \<open>API._executeItemPileMacro\<close>: nothing happens on a target that is not a valid pile or
  has no macro configured; a configured macro that does not exist is an error; otherwise
  the macro runs. What the macro's own script does is outside the program.
\<close>

definition executeItemPileMacro :: "uuid \<Rightarrow> string \<Rightarrow> world \<Rightarrow> error + world" where
  "executeItemPileMacro targetUuid action w =
     (if \<not> isValidItemPile w targetUuid then Inr w
      else let pileData = getItemPileData w targetUuid in
        if \<not> truthy (getProperty pileData ''macro'') then Inr w
        else (case getProperty pileData ''macro'' of
                JStr m \<Rightarrow>
                  if m \<in> set (macros w) then Inr (emit (MacroRun targetUuid action) w)
                  else Inl (CustomError ''Could not find macro'')
              | _ \<Rightarrow> Inl (CustomError ''Could not find macro'')))"

text \<open>
  Inside \<open>_updateItemPile\<close> the macro calls are not awaited. Each call stops at its first
  \<open>await\<close> and goes on only after \<open>_updateItemPile\<close> has issued the broadcast of the diff,
  so the macro runs after that broadcast; a failing macro rejects a promise nobody waits
  for and the update goes on. What such a call emits is recorded in \<open>detached\<close>.
\<close>

definition macro_not_awaited :: "uuid \<Rightarrow> string \<Rightarrow> world \<Rightarrow> world" where
  "macro_not_awaited targetUuid action w =
     (case executeItemPileMacro targetUuid action (w\<lparr>trace := []\<rparr>) of
        Inl _ \<Rightarrow> w
      | Inr w' \<Rightarrow> w\<lparr>detached := detached w @ trace w'\<rparr>)"

section \<open>Updating a pile\<close>

text \<open>\<open>API._updatedItemPile\<close>, run on every client when the diff is broadcast.\<close>

definition updatedItemPile :: "uuid \<Rightarrow> obj \<Rightarrow> world \<Rightarrow> world" where
  "updatedItemPile targetUuid diffData w0 =
     (let w = emit (UpdatedPile targetUuid diffData) w0 in
      if isObjectEmpty diffData then w
      else let data = getItemPileData w targetUuid;
               w1 = emit (HookNotify PILE_UPDATE) w in
        if truthy (getProperty data ''enabled'') \<and> truthy (getProperty data ''isContainer'') then
          let w2 = (if getProperty diffData ''closed'' = JBool True
                    then emit (HookNotify PILE_CLOSE) w1 else w1);
              w3 = (if getProperty diffData ''locked'' = JBool True
                    then emit (HookNotify PILE_LOCK) w2 else w2);
              w4 = (if getProperty diffData ''locked'' = JBool False
                    then emit (HookNotify PILE_UNLOCK) w3 else w3);
              w5 = (if getProperty diffData ''closed'' = JBool False
                    then emit (HookNotify PILE_OPEN) w4 else w4)
          in w5
        else w1)"

text \<open>
  \<open>API._updateItemPile\<close>, run by the executor: the diff is taken between the
  configuration read before the write and the merged configuration. After the write the
  macro calls are started, then the diff is broadcast.
\<close>

definition updateItemPile_exec :: "uuid \<Rightarrow> obj \<Rightarrow> world \<Rightarrow> error + outcome \<times> world" where
  "updateItemPile_exec targetUuid newData w =
     (case docs w targetUuid of
        None \<Rightarrow> Inl TypeError
      | Some target \<Rightarrow>
          let oldData = getItemPileData w targetUuid;
              data = mergeObject oldData newData;
              diff = diffObject oldData data;
              w1 = lib_updateItemPile targetUuid target data w;
              w2 = (if truthy (getProperty data ''enabled'') \<and> truthy (getProperty data ''isContainer'')
                    then
                      let a = (if getProperty diff ''closed'' = JBool True
                               then macro_not_awaited targetUuid ''closeItemPile'' w1 else w1);
                          b = (if getProperty diff ''locked'' = JBool True
                               then macro_not_awaited targetUuid ''lockItemPile'' a else a);
                          c = (if getProperty diff ''locked'' = JBool False
                               then macro_not_awaited targetUuid ''unlockItemPile'' b else b);
                          d = (if getProperty diff ''closed'' = JBool False
                               then macro_not_awaited targetUuid ''openItemPile'' c else c)
                      in d
                    else w1)
          in Inr (Completed, updatedItemPile targetUuid diff w2))"

text \<open>\<open>API.updateItemPile\<close>: the UUID check, the cancelable pre-update hook, the dispatch.\<close>

definition updateItemPile :: "hooks \<Rightarrow> uuid \<Rightarrow> obj \<Rightarrow> world \<Rightarrow> error + outcome \<times> world" where
  "updateItemPile h target newData w =
     (if target = [] then Inl (CustomError ''updateItemPile | Could not determine the UUID'')
      else case Hooks_call h PILE_PRE_UPDATE w of
        (hookResult, w1) \<Rightarrow>
          if \<not> hookResult then Inr (ReturnsUndefined, w1)
          else updateItemPile_exec target newData w1)"

section \<open>Open, close, lock, unlock, rattle\<close>

definition openItemPile :: "hooks \<Rightarrow> uuid \<Rightarrow> world \<Rightarrow> error + outcome \<times> world" where
  "openItemPile h target w =
     (let data0 = getItemPileData w target in
      if \<not> truthy (getProperty data0 ''enabled'') \<or> \<not> truthy (getProperty data0 ''isContainer'')
      then Inr (ReturnsFalse, w)
      else
        let wasLocked = getProperty data0 ''locked'';
            wasClosed = getProperty data0 ''closed'';
            data = setProperty (setProperty data0 ''closed'' (JBool False)) ''locked'' (JBool False);
            unlockHook = (if truthy wasLocked then Hooks_call h PILE_PRE_UNLOCK w else (True, w))
        in case unlockHook of
          (hookResult, w1) \<Rightarrow>
            if \<not> hookResult then Inr (ReturnsUndefined, w1)
            else case Hooks_call h PILE_PRE_OPEN w1 of
              (hookResult2, w2) \<Rightarrow>
                if \<not> hookResult2 then Inr (ReturnsUndefined, w2)
                else
                  let w3 = (if truthy wasClosed \<and> truthy (getProperty data ''openSound'')
                            then AudioHelper_play (getProperty data ''openSound'') w2 else w2)
                  in updateItemPile h target data w3)"

definition closeItemPile :: "hooks \<Rightarrow> uuid \<Rightarrow> world \<Rightarrow> error + outcome \<times> world" where
  "closeItemPile h target w =
     (let data0 = getItemPileData w target in
      if \<not> truthy (getProperty data0 ''enabled'') \<or> \<not> truthy (getProperty data0 ''isContainer'')
      then Inr (ReturnsFalse, w)
      else
        let wasClosed = getProperty data0 ''closed'';
            data = setProperty data0 ''closed'' (JBool True)
        in case Hooks_call h PILE_PRE_CLOSE w of
          (hookResult, w1) \<Rightarrow>
            if \<not> hookResult then Inr (ReturnsUndefined, w1)
            else
              let w2 = (if \<not> truthy wasClosed \<and> truthy (getProperty data ''closeSound'')
                        then AudioHelper_play (getProperty data ''closeSound'') w1 else w1)
              in updateItemPile h target data w2)"

definition lockItemPile :: "hooks \<Rightarrow> uuid \<Rightarrow> world \<Rightarrow> error + outcome \<times> world" where
  "lockItemPile h target w =
     (let data0 = getItemPileData w target in
      if \<not> truthy (getProperty data0 ''enabled'') \<or> \<not> truthy (getProperty data0 ''isContainer'')
      then Inr (ReturnsFalse, w)
      else
        let wasClosed = getProperty data0 ''closed'';
            data = setProperty (setProperty data0 ''closed'' (JBool True)) ''locked'' (JBool True);
            closeHook = (if \<not> truthy wasClosed then Hooks_call h PILE_PRE_CLOSE w else (True, w))
        in case closeHook of
          (hookResult, w1) \<Rightarrow>
            if \<not> hookResult then Inr (ReturnsUndefined, w1)
            else case Hooks_call h PILE_PRE_LOCK w1 of
              (hookResult2, w2) \<Rightarrow>
                if \<not> hookResult2 then Inr (ReturnsUndefined, w2)
                else
                  let w3 = (if \<not> truthy wasClosed \<and> truthy (getProperty data ''closeSound'')
                            then AudioHelper_play (getProperty data ''closeSound'') w2 else w2)
                  in updateItemPile h target data w3)"

text \<open>\<open>API.unlockItemPile\<close> calls the pre-unlock hook and does not look at its result.\<close>

definition unlockItemPile :: "hooks \<Rightarrow> uuid \<Rightarrow> world \<Rightarrow> error + outcome \<times> world" where
  "unlockItemPile h target w =
     (let data0 = getItemPileData w target in
      if \<not> truthy (getProperty data0 ''enabled'') \<or> \<not> truthy (getProperty data0 ''isContainer'')
      then Inr (ReturnsFalse, w)
      else
        let data = setProperty data0 ''locked'' (JBool False)
        in case Hooks_call h PILE_PRE_UNLOCK w of
          (_, w1) \<Rightarrow> updateItemPile h target data w1)"

definition rattleItemPile :: "hooks \<Rightarrow> uuid \<Rightarrow> world \<Rightarrow> error + outcome \<times> world" where
  "rattleItemPile h target w =
     (let data = getItemPileData w target in
      if \<not> truthy (getProperty data ''enabled'') \<or> \<not> truthy (getProperty data ''isContainer'')
         \<or> \<not> truthy (getProperty data ''locked'')
      then Inr (ReturnsFalse, w)
      else case Hooks_call h PILE_PRE_RATTLE w of
        (_, w1) \<Rightarrow>
          let w2 = (if truthy (getProperty data ''lockedSound'')
                    then AudioHelper_play (getProperty data ''lockedSound'') w1 else w1)
          in Inr (ReturnsTrue, emit (HookNotify PILE_RATTLE) w2))"

definition isItemPileLocked :: "world \<Rightarrow> uuid \<Rightarrow> jsval" where
  "isItemPileLocked w target =
     (let data = getItemPileData w target in
      if \<not> truthy (getProperty data ''enabled'') \<or> \<not> truthy (getProperty data ''isContainer'')
      then JBool False
      else getProperty data ''locked'')"

definition isItemPileClosed :: "world \<Rightarrow> uuid \<Rightarrow> jsval" where
  "isItemPileClosed w target =
     (let data = getItemPileData w target in
      if \<not> truthy (getProperty data ''enabled'') \<or> \<not> truthy (getProperty data ''isContainer'')
      then JBool False
      else getProperty data ''closed'')"

text \<open>
  \<open>API._itemPileClicked\<close>. Which tokens are close enough and owned is decided by the
  canvas and by geometry helpers of \<open>lib/lib.js\<close>; the click carries their answer: the
  tokens that passed both filters, the preferred one first.
\<close>

record click =
  user_isGM :: bool
  isGMConnected :: bool
  validTokens :: "uuid list"

definition itemPileClicked :: "hooks \<Rightarrow> click \<Rightarrow> uuid \<Rightarrow> world \<Rightarrow> error + outcome \<times> world" where
  "itemPileClicked h c pile w =
     (if \<not> isValidItemPile w pile then Inr (ReturnsUndefined, w)
      else if \<not> isGMConnected c then Inr (ReturnsUndefined, w)
      else
        let data = getItemPileData w pile in
        if validTokens c = [] \<and> \<not> user_isGM c then Inr (ReturnsUndefined, w)
        else
          let hasInteractingToken = (validTokens c \<noteq> []) in
          if truthy (getProperty data ''isContainer'') \<and> hasInteractingToken then
            if truthy (getProperty data ''locked'') \<and> \<not> user_isGM c
            then rattleItemPile h pile w
            else if truthy (getProperty data ''closed'') then
              (case openItemPile h pile w of
                 Inl e \<Rightarrow> Inl e
               | Inr (_, w1) \<Rightarrow> Inr (Completed, emit (ShowInventory pile) w1))
            else Inr (Completed, emit (ShowInventory pile) w)
          else Inr (Completed, emit (ShowInventory pile) w))"

section \<open>Items: matching, adding, removing, transferring\<close>

text \<open>
  An entry handed to \<open>_addItems\<close> is \<open>{item, quantity}\<close>, the quantity optional; an entry
  handed to \<open>_removeItems\<close> is read for its \<open>_id\<close> and its \<open>quantity\<close>, and an entry that
  carries no quantity subtracts as \<open>NaN\<close>. The records given back are \<open>{item, quantity}\<close>
  for an addition and \<open>{item, quantity, deleted}\<close> for a removal.
\<close>

record item_data =
  data_item :: item
  data_quantity :: "number option"

record item_request =
  req_id :: nat
  req_quantity :: number

record added =
  added_item :: item
  added_quantity :: number

record removed =
  removed_item :: item
  removed_quantity :: number
  removed_deleted :: bool

text \<open>
  Modelled from the spec: \<open>lib.getSimilarItem\<close> is in \<open>lib/lib.js\<close>, not among the sources.
  A line matches when it has the same id or the same name and type attribute; the first
  line in source order that matches wins.
\<close>

definition getSimilarItem :: "item list \<Rightarrow> nat \<Rightarrow> string \<Rightarrow> string \<Rightarrow> item option" where
  "getSimilarItem items itemId itemName itemType =
     find (\<lambda>i. item_id i = itemId \<or> (item_name i = itemName \<and> item_type i = itemType)) items"

text \<open>
  Modelled from the spec: \<open>lib.getDocumentItems\<close>, which \<open>API.getItemPileItems\<close> hands over
  to, is in \<open>lib/lib.js\<close>. It gives every line of the document not excluded by the
  filter; the filter is the list of disallowed types given, and the module setting when
  none is given.
\<close>

definition getDocumentItems :: "world \<Rightarrow> document \<Rightarrow> string list option \<Rightarrow> item list" where
  "getDocumentItems w d filters =
     (let disallowed = (case filters of None \<Rightarrow> itemTypeFilters w | Some fs \<Rightarrow> fs)
      in filter (\<lambda>l. item_type l \<notin> set disallowed) (doc_items d))"

text \<open>
  The host's embedded-document calls. Creation gives every new item an id never used
  before (the counter \<open>nextId\<close> of the world) and appends it; an update writes the
  quantity of the line with the given id, the updates of one call applied in order; a
  deletion drops the lines with the given ids.
\<close>

fun createEmbeddedDocuments :: "nat \<Rightarrow> item list \<Rightarrow> item list" where
  "createEmbeddedDocuments n [] = []"
| "createEmbeddedDocuments n (i # rest) = i\<lparr>item_id := n\<rparr> # createEmbeddedDocuments (Suc n) rest"

definition updateOne :: "nat \<times> number \<Rightarrow> item list \<Rightarrow> item list" where
  "updateOne u items =
     map (\<lambda>l. if item_id l = fst u then l\<lparr>item_quantity := snd u\<rparr> else l) items"

definition updateEmbeddedDocuments :: "(nat \<times> number) list \<Rightarrow> item list \<Rightarrow> item list" where
  "updateEmbeddedDocuments ups items = fold updateOne ups items"

definition deleteEmbeddedDocuments :: "nat list \<Rightarrow> item list \<Rightarrow> item list" where
  "deleteEmbeddedDocuments ids items = filter (\<lambda>l. item_id l \<notin> set ids) items"

definition setItems :: "uuid \<Rightarrow> document \<Rightarrow> item list \<Rightarrow> world \<Rightarrow> world" where
  "setItems t d items w = w\<lparr>docs := (docs w)(t \<mapsto> d\<lparr>doc_items := items\<rparr>)\<rparr>"

text \<open>
  The loop of \<open>API._addItems\<close>. Every entry is matched against \<open>targetActorItems\<close>, the
  lines the target had when the call began. The incoming quantity is the one of the
  entry, and 1 when the entry has none. The result is what the loop pushed onto
  \<open>itemsAdded\<close>, \<open>itemsToCreate\<close> and \<open>itemsToUpdate\<close>, in the order of the entries.
\<close>

fun addItems_loop ::
  "arith \<Rightarrow> item list \<Rightarrow> item_data list \<Rightarrow> added list \<times> item list \<times> (nat \<times> number) list" where
  "addItems_loop ar targetActorItems [] = ([], [], [])"
| "addItems_loop ar targetActorItems (itemData # rest) =
     (case addItems_loop ar targetActorItems rest of
        (itemsAdded, itemsToCreate, itemsToUpdate) \<Rightarrow>
          let it = data_item itemData;
              incomingQuantity = (case data_quantity itemData of Some q \<Rightarrow> q | None \<Rightarrow> Num 1)
          in case getSimilarItem targetActorItems (item_id it) (item_name it) (item_type it) of
               Some foundItem \<Rightarrow>
                 let currentQuantity = item_quantity foundItem;
                     newQuantity = number_add ar currentQuantity incomingQuantity
                 in (\<lparr>added_item = foundItem\<lparr>item_quantity := newQuantity\<rparr>,
                      added_quantity = incomingQuantity\<rparr> # itemsAdded,
                     itemsToCreate,
                     (item_id foundItem, newQuantity) # itemsToUpdate)
             | None \<Rightarrow>
                 (itemsAdded, it\<lparr>item_quantity := incomingQuantity\<rparr> # itemsToCreate, itemsToUpdate))"

definition addItems_exec ::
  "arith \<Rightarrow> uuid \<Rightarrow> item_data list \<Rightarrow> bool \<Rightarrow> world \<Rightarrow> error + added list \<times> world" where
  "addItems_exec ar targetUuid items isTransfer w =
     (case docs w targetUuid of
        None \<Rightarrow> Inl TypeError
      | Some target \<Rightarrow>
          (case addItems_loop ar (doc_items target) items of
             (itemsAdded0, itemsToCreate, itemsToUpdate) \<Rightarrow>
               let itemsCreated = createEmbeddedDocuments (nextId w) itemsToCreate;
                   w1 = setItems targetUuid target
                          (updateEmbeddedDocuments itemsToUpdate (doc_items target @ itemsCreated))
                          (w\<lparr>nextId := nextId w + length itemsToCreate\<rparr>);
                   itemsAdded = itemsAdded0 @
                     map (\<lambda>i. \<lparr>added_item = i, added_quantity = item_quantity i\<rparr>) itemsCreated;
                   w2 = emit (HookNotify ITEM_ADD) w1
               in if \<not> isTransfer then
                    (case executeItemPileMacro targetUuid ''addItems'' w2 of
                       Inl e \<Rightarrow> Inl e
                     | Inr w3 \<Rightarrow> Inr (itemsAdded, emit (Rerender targetUuid False) w3))
                  else Inr (itemsAdded, w2)))"

text \<open>
  The loop of \<open>API._removeItems\<close>. Every entry reads its line from the target as it was
  when the call began; an id the target does not have makes \<open>items.get\<close> undefined and
  the call fail. The line stays when \<open>newQuantity >= 1\<close>, and is deleted otherwise.
\<close>

fun removeItems_loop ::
  "arith \<Rightarrow> item list \<Rightarrow> item_request list \<Rightarrow>
     error + removed list \<times> (nat \<times> number) list \<times> nat list" where
  "removeItems_loop ar targetItems [] = Inr ([], [], [])"
| "removeItems_loop ar targetItems (itemData # rest) =
     (case find (\<lambda>l. item_id l = req_id itemData) targetItems of
        None \<Rightarrow> Inl TypeError
      | Some it \<Rightarrow>
          (case removeItems_loop ar targetItems rest of
             Inl e \<Rightarrow> Inl e
           | Inr (itemsRemoved, itemsToUpdate, itemsToDelete) \<Rightarrow>
               let currentQuantity = item_quantity it;
                   quantityToRemove = req_quantity itemData;
                   newQuantity = Math_max_0 (number_sub ar currentQuantity quantityToRemove)
               in if ge_1 newQuantity then
                    Inr (\<lparr>removed_item = it\<lparr>item_quantity := quantityToRemove\<rparr>,
                          removed_quantity = quantityToRemove, removed_deleted = False\<rparr> # itemsRemoved,
                         (item_id it, newQuantity) # itemsToUpdate,
                         itemsToDelete)
                  else
                    Inr (\<lparr>removed_item = it\<lparr>item_quantity := currentQuantity\<rparr>,
                          removed_quantity = currentQuantity, removed_deleted = True\<rparr> # itemsRemoved,
                         itemsToUpdate,
                         item_id it # itemsToDelete)))"

section \<open>Deleting an emptied pile\<close>

text \<open>
  Modelled from the spec: \<open>lib.isItemPileEmpty\<close> is in \<open>lib/lib.js\<close>, not among the sources.
  A pile is empty when it holds zero items and zero positive attributes.
\<close>

definition isItemPileEmpty :: "document \<Rightarrow> bool" where
  "isItemPileEmpty d = (doc_items d = [] \<and> list_all (\<lambda>(p, v). \<not> gt_0 v) (doc_attributes d))"

text \<open>
  The table lookup of \<open>API._checkItemPileShouldBeDeleted\<close>: the value of \<open>deleteWhenEmpty\<close>,
  \<open>"default"\<close> when it is null or undefined, is used as a key of the object literal
  \<open>{default: <setting>, true: true, false: false}\<close>. A boolean keys by its name, and a
  number's decimal name is none of the keys. A key that is not one of the three is looked
  up in \<open>Object.prototype\<close>, from which every object literal inherits: under one of its
  property names the lookup finds a function or an object, under any other key nothing.
\<close>

definition Object_prototype_keys :: "string list" where
  "Object_prototype_keys =
     [''constructor'', ''__defineGetter__'', ''__defineSetter__'', ''hasOwnProperty'',
      ''__lookupGetter__'', ''__lookupSetter__'', ''isPrototypeOf'', ''propertyIsEnumerable'',
      ''toString'', ''valueOf'', ''__proto__'', ''toLocaleString'']"

datatype property = Own jsval | Inherited | Missing

definition property_truthy :: "property \<Rightarrow> bool" where
  "property_truthy p = (case p of Own v \<Rightarrow> truthy v | Inherited \<Rightarrow> True | Missing \<Rightarrow> False)"

definition shouldDelete_lookup :: "bool \<Rightarrow> jsval \<Rightarrow> property" where
  "shouldDelete_lookup setting v =
     (case v of
        JUndefined \<Rightarrow> Own (JBool setting)
      | JNull \<Rightarrow> Own (JBool setting)
      | JBool b \<Rightarrow> Own (JBool b)
      | JNum n \<Rightarrow> Missing
      | JStr s \<Rightarrow>
          if s = ''default'' then Own (JBool setting)
          else if s = ''true'' then Own (JBool True)
          else if s = ''false'' then Own (JBool False)
          else if s \<in> set Object_prototype_keys then Inherited
          else Missing)"

definition checkItemPileShouldBeDeleted :: "uuid \<Rightarrow> world \<Rightarrow> bool" where
  "checkItemPileShouldBeDeleted targetUuid w =
     (case docs w targetUuid of
        None \<Rightarrow> False
      | Some target \<Rightarrow>
          if doc_kind target \<noteq> TokenDocument then False
          else
            let pileData = getItemPileData w targetUuid;
                shouldDelete = shouldDelete_lookup (deleteEmptyPiles w) (getProperty pileData ''deleteWhenEmpty'')
            in truthy (getProperty pileData ''enabled'') \<and> property_truthy shouldDelete
               \<and> isItemPileEmpty target)"

definition deleteItemPile_exec :: "uuid \<Rightarrow> world \<Rightarrow> world" where
  "deleteItemPile_exec targetUuid w = emit (DeletedPile targetUuid) (w\<lparr>docs := (docs w)(targetUuid := None)\<rparr>)"

section \<open>The executor's item operations\<close>

definition removeItems_exec ::
  "arith \<Rightarrow> uuid \<Rightarrow> item_request list \<Rightarrow> bool \<Rightarrow> world \<Rightarrow> error + removed list \<times> world" where
  "removeItems_exec ar targetUuid items isTransfer w =
     (case docs w targetUuid of
        None \<Rightarrow> Inl TypeError
      | Some target \<Rightarrow>
          (case removeItems_loop ar (doc_items target) items of
             Inl e \<Rightarrow> Inl e
           | Inr (itemsRemoved, itemsToUpdate, itemsToDelete) \<Rightarrow>
               let w1 = setItems targetUuid target
                          (deleteEmbeddedDocuments itemsToDelete
                             (updateEmbeddedDocuments itemsToUpdate (doc_items target))) w;
                   w2 = emit (HookNotify ITEM_REMOVE) w1
               in if \<not> isTransfer then
                    (case executeItemPileMacro targetUuid ''removeItems'' w2 of
                       Inl e \<Rightarrow> Inl e
                     | Inr w3 \<Rightarrow>
                         let shouldBeDeleted = checkItemPileShouldBeDeleted targetUuid w3;
                             w4 = emit (Rerender targetUuid shouldBeDeleted) w3
                         in Inr (itemsRemoved,
                                 if shouldBeDeleted then deleteItemPile_exec targetUuid w4 else w4))
                  else Inr (itemsRemoved, w2)))"

text \<open>
  \<open>API._transferItems\<close>: the removal from the source, then the addition to the target of
  the records the removal gave back, both as sub-steps of the transfer.
\<close>

definition removed_as_item_data :: "removed \<Rightarrow> item_data" where
  "removed_as_item_data r = \<lparr>data_item = removed_item r, data_quantity = Some (removed_quantity r)\<rparr>"

definition transferItems_exec ::
  "arith \<Rightarrow> uuid \<Rightarrow> uuid \<Rightarrow> item_request list \<Rightarrow> bool \<Rightarrow> world \<Rightarrow> error + added list \<times> world" where
  "transferItems_exec ar sourceUuid targetUuid items isEverything w =
     (case removeItems_exec ar sourceUuid items True w of
        Inl e \<Rightarrow> Inl e
      | Inr (itemsRemoved, w1) \<Rightarrow>
          (case addItems_exec ar targetUuid (map removed_as_item_data itemsRemoved) True w1 of
             Inl e \<Rightarrow> Inl e
           | Inr (itemsAdded, w2) \<Rightarrow>
               if \<not> isEverything then
                 (case executeItemPileMacro sourceUuid ''transferItems'' (emit (HookNotify ITEM_TRANSFER) w2) of
                    Inl e \<Rightarrow> Inl e
                  | Inr w3 \<Rightarrow>
                      (case executeItemPileMacro targetUuid ''transferItems'' w3 of
                         Inl e \<Rightarrow> Inl e
                       | Inr w4 \<Rightarrow>
                           let shouldBeDeleted = checkItemPileShouldBeDeleted sourceUuid w4;
                               w5 = emit (Rerender targetUuid False)
                                      (emit (Rerender sourceUuid shouldBeDeleted) w4)
                           in Inr (itemsAdded,
                                   if shouldBeDeleted then deleteItemPile_exec sourceUuid w5 else w5)))
               else Inr (itemsAdded, w2)))"

text \<open>
  \<open>API._transferAllItems\<close>. The entries handed to \<open>_removeItems\<close> are the item objects of
  the source's lines: they have an \<open>_id\<close> and no \<open>quantity\<close>, so every line is deleted
  and reported with the quantity it had. What is then run for everyone is the handler
  \<open>TRANSFER_ALL_ITEMS\<close> itself, not \<open>CALL_HOOK\<close>; the handler table is in \<open>socket.js\<close>, not
  among the sources, and the call is kept as an event.
\<close>

definition transferAllItems_exec ::
  "arith \<Rightarrow> uuid \<Rightarrow> uuid \<Rightarrow> string list option \<Rightarrow> bool \<Rightarrow> world \<Rightarrow> error + added list \<times> world" where
  "transferAllItems_exec ar sourceUuid targetUuid filters isEverything w =
     (case docs w sourceUuid of
        None \<Rightarrow> Inl TypeError
      | Some source \<Rightarrow>
          let itemsToRemove = map (\<lambda>i. \<lparr>req_id = item_id i, req_quantity = NaN\<rparr>)
                                  (getDocumentItems w source filters)
          in case removeItems_exec ar sourceUuid itemsToRemove True w of
               Inl e \<Rightarrow> Inl e
             | Inr (itemsRemoved, w1) \<Rightarrow>
                 (case addItems_exec ar targetUuid (map removed_as_item_data itemsRemoved) True w1 of
                    Inl e \<Rightarrow> Inl e
                  | Inr (itemAdded, w2) \<Rightarrow>
                      if \<not> isEverything then
                        (case executeItemPileMacro sourceUuid ''transferAllItems''
                                (emit (Broadcast ''TRANSFER_ALL_ITEMS'') w2) of
                           Inl e \<Rightarrow> Inl e
                         | Inr w3 \<Rightarrow>
                             (case executeItemPileMacro targetUuid ''transferAllItems'' w3 of
                                Inl e \<Rightarrow> Inl e
                              | Inr w4 \<Rightarrow>
                                  let shouldBeDeleted = checkItemPileShouldBeDeleted sourceUuid w4;
                                      w5 = emit (Rerender targetUuid False)
                                             (emit (Rerender sourceUuid shouldBeDeleted) w4)
                                  in Inr (itemAdded,
                                          if shouldBeDeleted then deleteItemPile_exec sourceUuid w5 else w5)))
                      else Inr (itemAdded, w2)))"

section \<open>The executor's attribute operations\<close>

text \<open>
  The attributes of an actor are its scalar resources by path. The executor is handed an
  object of paths and quantities, or (for a removal) an array of paths; the quantities
  are numbers. \<open>Number(getProperty(actor.data, path))\<close> is \<open>NaN\<close> for a path the actor does
  not have. \<open>Object.fromEntries\<close> and the assignments \<open>updates[path] = v\<close> keep one entry
  per key, at the place of its first assignment; \<open>actor.update\<close> writes every entry of
  the update.
\<close>

datatype attr_request = Quantities "(string \<times> number) list" | Paths "string list"

definition attr_number :: "(string \<times> number) list \<Rightarrow> string \<Rightarrow> number" where
  "attr_number actorData path = (case map_of actorData path of None \<Rightarrow> NaN | Some v \<Rightarrow> v)"

definition fromEntries :: "(string \<times> number) list \<Rightarrow> (string \<times> number) list" where
  "fromEntries entries = fold (\<lambda>(k, v) acc. AList.update k v acc) entries []"

definition actor_update :: "(string \<times> number) list \<Rightarrow> (string \<times> number) list \<Rightarrow> (string \<times> number) list" where
  "actor_update updates actorData = fold (\<lambda>(k, v) acc. AList.update k v acc) updates actorData"

definition setAttributes :: "uuid \<Rightarrow> document \<Rightarrow> (string \<times> number) list \<Rightarrow> world \<Rightarrow> world" where
  "setAttributes t d attrs w = w\<lparr>docs := (docs w)(t \<mapsto> d\<lparr>doc_attributes := attrs\<rparr>)\<rparr>"

text \<open>
  Modelled from the spec: \<open>lib.getItemPileAttributes\<close> is in \<open>lib/lib.js\<close>, not among the
  sources. It gives the attribute pools of the actor, by path.
\<close>

definition getItemPileAttributes :: "document \<Rightarrow> string list" where
  "getItemPileAttributes d = map fst (doc_attributes d)"

text \<open>
  The loop of \<open>API._addAttributes\<close>: every entry reads the quantity the actor had when the
  call began; the update and the record both get the new total.
\<close>

fun addAttributes_loop ::
  "arith \<Rightarrow> (string \<times> number) list \<Rightarrow> (string \<times> number) list \<Rightarrow>
     (string \<times> number) list \<times> (string \<times> number) list \<Rightarrow>
     (string \<times> number) list \<times> (string \<times> number) list" where
  "addAttributes_loop ar actorData [] acc = acc"
| "addAttributes_loop ar actorData ((attribute, quantityToAdd) # rest) (updates, attributesAdded) =
     (let currentQuantity = attr_number actorData attribute
      in addAttributes_loop ar actorData rest
           (AList.update attribute (number_add ar currentQuantity quantityToAdd) updates,
            AList.update attribute (number_add ar currentQuantity quantityToAdd) attributesAdded))"

text \<open>
  \<open>API._addAttributes\<close>. The macro and the re-render are under \<open>if (isTransfer)\<close>: that is
  how the code has it.
\<close>

definition addAttributes_exec ::
  "arith \<Rightarrow> uuid \<Rightarrow> (string \<times> number) list \<Rightarrow> bool \<Rightarrow> world \<Rightarrow>
     error + (string \<times> number) list \<times> world" where
  "addAttributes_exec ar targetUuid attributes isTransfer w =
     (case docs w targetUuid of
        None \<Rightarrow> Inl TypeError
      | Some targetActor \<Rightarrow>
          (case addAttributes_loop ar (doc_attributes targetActor) attributes ([], []) of
             (updates, attributesAdded) \<Rightarrow>
               let w1 = setAttributes targetUuid targetActor
                          (actor_update updates (doc_attributes targetActor)) w;
                   w2 = emit (HookNotify ATTRIBUTE_ADD) w1
               in if isTransfer then
                    (case executeItemPileMacro targetUuid ''addAttributes'' w2 of
                       Inl e \<Rightarrow> Inl e
                     | Inr w3 \<Rightarrow> Inr (attributesAdded, emit (Rerender targetUuid False) w3))
                  else Inr (attributesAdded, w2)))"

text \<open>
  The loop of \<open>API._removeAttributes\<close>: the new quantity is clamped at zero; the record
  gets the requested quantity when the new quantity is truthy, and the quantity the
  actor had otherwise.
\<close>

fun removeAttributes_loop ::
  "arith \<Rightarrow> (string \<times> number) list \<Rightarrow> (string \<times> number) list \<Rightarrow>
     (string \<times> number) list \<times> (string \<times> number) list \<Rightarrow>
     (string \<times> number) list \<times> (string \<times> number) list" where
  "removeAttributes_loop ar actorData [] acc = acc"
| "removeAttributes_loop ar actorData ((attribute, quantityToRemove) # rest) (updates, attributesRemoved) =
     (let currentQuantity = attr_number actorData attribute;
          newQuantity = Math_max_0 (number_sub ar currentQuantity quantityToRemove)
      in removeAttributes_loop ar actorData rest
           (AList.update attribute newQuantity updates,
            AList.update attribute
              (if number_truthy newQuantity then quantityToRemove else currentQuantity)
              attributesRemoved))"

definition removeAttributes_exec ::
  "arith \<Rightarrow> uuid \<Rightarrow> attr_request \<Rightarrow> bool \<Rightarrow> world \<Rightarrow> error + (string \<times> number) list \<times> world" where
  "removeAttributes_exec ar targetUuid attributes isTransfer w =
     (case docs w targetUuid of
        None \<Rightarrow> Inl TypeError
      | Some targetActor \<Rightarrow>
          let attributes' =
                (case attributes of
                   Paths ps \<Rightarrow>
                     fromEntries (map (\<lambda>attribute. (attribute, attr_number (doc_attributes targetActor) attribute)) ps)
                 | Quantities ob \<Rightarrow> ob)
          in case removeAttributes_loop ar (doc_attributes targetActor) attributes' ([], []) of
               (updates, attributesRemoved) \<Rightarrow>
                 let w1 = setAttributes targetUuid targetActor
                            (actor_update updates (doc_attributes targetActor)) w;
                     w2 = emit (HookNotify ATTRIBUTE_REMOVE) w1
                 in if \<not> isTransfer then
                      (case executeItemPileMacro targetUuid ''removeAttributes'' w2 of
                         Inl e \<Rightarrow> Inl e
                       | Inr w3 \<Rightarrow>
                           let shouldBeDeleted = checkItemPileShouldBeDeleted targetUuid w3;
                               w4 = emit (Rerender targetUuid shouldBeDeleted) w3
                           in Inr (attributesRemoved,
                                   if shouldBeDeleted then deleteItemPile_exec targetUuid w4 else w4))
                    else Inr (attributesRemoved, w2))"

text \<open>\<open>API._transferAttributes\<close>; it gives back the record of the removal.\<close>

definition transferAttributes_exec ::
  "arith \<Rightarrow> uuid \<Rightarrow> uuid \<Rightarrow> attr_request \<Rightarrow> bool \<Rightarrow> world \<Rightarrow>
     error + (string \<times> number) list \<times> world" where
  "transferAttributes_exec ar sourceUuid targetUuid attributes isEverything w =
     (case removeAttributes_exec ar sourceUuid attributes True w of
        Inl e \<Rightarrow> Inl e
      | Inr (attributesRemoved, w1) \<Rightarrow>
          (case addAttributes_exec ar targetUuid attributesRemoved True w1 of
             Inl e \<Rightarrow> Inl e
           | Inr (attributesAdded, w2) \<Rightarrow>
               if \<not> isEverything then
                 (case executeItemPileMacro sourceUuid ''transferAttributes''
                         (emit (HookNotify ATTRIBUTE_TRANSFER) w2) of
                    Inl e \<Rightarrow> Inl e
                  | Inr w3 \<Rightarrow>
                      (case executeItemPileMacro targetUuid ''transferAttributes'' w3 of
                         Inl e \<Rightarrow> Inl e
                       | Inr w4 \<Rightarrow>
                           let shouldBeDeleted = checkItemPileShouldBeDeleted sourceUuid w4;
                               w5 = emit (Rerender targetUuid False)
                                      (emit (Rerender sourceUuid shouldBeDeleted) w4)
                           in Inr (attributesRemoved,
                                   if shouldBeDeleted then deleteItemPile_exec sourceUuid w5 else w5)))
               else Inr (attributesRemoved, w2)))"

text \<open>
  \<open>API._transferAllAttributes\<close>: the attributes the source has with a positive quantity
  and the target has too. The notification is sent whether or not the call is part of
  \<open>_transferEverything\<close>; only the source is re-rendered.
\<close>

definition transferAllAttributes_exec ::
  "arith \<Rightarrow> uuid \<Rightarrow> uuid \<Rightarrow> bool \<Rightarrow> world \<Rightarrow> error + (string \<times> number) list \<times> world" where
  "transferAllAttributes_exec ar sourceUuid targetUuid isEverything w =
     (case docs w sourceUuid of
        None \<Rightarrow> Inl TypeError
      | Some sourceActor \<Rightarrow>
          (case docs w targetUuid of
             None \<Rightarrow> Inl TypeError
           | Some targetActor \<Rightarrow>
               let sourceAttributes = getItemPileAttributes sourceActor;
                   attributesToTransfer =
                     filter (\<lambda>path. map_of (doc_attributes sourceActor) path \<noteq> None
                                   \<and> gt_0 (attr_number (doc_attributes sourceActor) path)
                                   \<and> map_of (doc_attributes targetActor) path \<noteq> None)
                            sourceAttributes
               in case removeAttributes_exec ar sourceUuid (Paths attributesToTransfer) True w of
                    Inl e \<Rightarrow> Inl e
                  | Inr (attributesRemoved, w1) \<Rightarrow>
                      (case addAttributes_exec ar targetUuid attributesRemoved True w1 of
                         Inl e \<Rightarrow> Inl e
                       | Inr (attributesAdded, w2) \<Rightarrow>
                           let w3 = emit (HookNotify ATTRIBUTE_TRANSFER_ALL) w2
                           in if \<not> isEverything then
                                (case executeItemPileMacro sourceUuid ''transferAllAttributes'' w3 of
                                   Inl e \<Rightarrow> Inl e
                                 | Inr w4 \<Rightarrow>
                                     (case executeItemPileMacro targetUuid ''transferAllAttributes'' w4 of
                                        Inl e \<Rightarrow> Inl e
                                      | Inr w5 \<Rightarrow>
                                          let shouldBeDeleted = checkItemPileShouldBeDeleted sourceUuid w5;
                                              w6 = emit (Rerender sourceUuid shouldBeDeleted) w5
                                          in Inr (attributesAdded,
                                                  if shouldBeDeleted then deleteItemPile_exec sourceUuid w6
                                                  else w6)))
                              else Inr (attributesAdded, w3))))"

text \<open>
  \<open>API._transferEverything\<close>: all items, then all attributes, both as parts of it; then
  one notification, the macros, and one check of the source.
\<close>

definition transferEverything_exec ::
  "arith \<Rightarrow> uuid \<Rightarrow> uuid \<Rightarrow> string list option \<Rightarrow> world \<Rightarrow>
     error + (added list \<times> (string \<times> number) list) \<times> world" where
  "transferEverything_exec ar sourceUuid targetUuid filters w =
     (case transferAllItems_exec ar sourceUuid targetUuid filters True w of
        Inl e \<Rightarrow> Inl e
      | Inr (itemsTransferred, w1) \<Rightarrow>
          (case transferAllAttributes_exec ar sourceUuid targetUuid True w1 of
             Inl e \<Rightarrow> Inl e
           | Inr (attributesTransferred, w2) \<Rightarrow>
               (case executeItemPileMacro sourceUuid ''transferEverything''
                       (emit (HookNotify TRANSFER_EVERYTHING) w2) of
                  Inl e \<Rightarrow> Inl e
                | Inr w3 \<Rightarrow>
                    (case executeItemPileMacro targetUuid ''transferEverything'' w3 of
                       Inl e \<Rightarrow> Inl e
                     | Inr w4 \<Rightarrow>
                         let shouldBeDeleted = checkItemPileShouldBeDeleted sourceUuid w4;
                             w5 = emit (Rerender targetUuid False)
                                    (emit (Rerender sourceUuid shouldBeDeleted) w4)
                         in Inr ((itemsTransferred, attributesTransferred),
                                 if shouldBeDeleted then deleteItemPile_exec sourceUuid w5 else w5)))))"

section \<open>The public item calls\<close>

text \<open>
  An entry of the public calls is a string id, an object with \<open>_id\<close> and an optional
  quantity, or an object with \<open>item\<close> and an optional quantity. A public call gives back
  \<open>None\<close> for \<open>undefined\<close>.
\<close>

datatype item_arg = IdString nat | IdEntry nat "number option" | ItemEntry item "number option"

definition arg_quantity :: "item_arg \<Rightarrow> number option" where
  "arg_quantity a = (case a of IdString _ \<Rightarrow> None | IdEntry _ q \<Rightarrow> q | ItemEntry _ q \<Rightarrow> q)"

definition arg_item_id :: "item_arg \<Rightarrow> nat" where
  "arg_item_id a = (case a of IdString i \<Rightarrow> i | IdEntry i _ \<Rightarrow> i | ItemEntry it _ \<Rightarrow> item_id it)"

definition interactionId_ok :: "jsval \<Rightarrow> bool" where
  "interactionId_ok interactionId =
     (\<not> (truthy interactionId \<and> (case interactionId of JStr _ \<Rightarrow> False | _ \<Rightarrow> True)))"

text \<open>
  \<open>API.addItems\<close>. For an entry without a quantity the mapping reads the quantity
  attribute in \<open>item.data\<close>, one level below the item the attribute path starts from, and
  finds nothing there: the entry reaches \<open>_addItems\<close> without a quantity.
\<close>

definition addItems ::
  "arith \<Rightarrow> hooks \<Rightarrow> uuid \<Rightarrow> item_data list \<Rightarrow> jsval \<Rightarrow> world \<Rightarrow> error + added list option \<times> world" where
  "addItems ar h target items interactionId w =
     (case Hooks_call h ITEM_PRE_ADD w of
        (hookResult, w1) \<Rightarrow>
          if \<not> hookResult then Inr (None, w1)
          else if target = [] then Inl (CustomError ''AddItems | Could not determine the UUID'')
          else
            let items' = map (\<lambda>itemData.
                   \<lparr>data_item = data_item itemData,
                    data_quantity = (case data_quantity itemData of
                                       Some q \<Rightarrow> Some q
                                     | None \<Rightarrow> None)\<rparr>) items
            in if \<not> interactionId_ok interactionId
               then Inl (CustomError ''AddItems | interactionId must be of type string or false'')
               else (case addItems_exec ar target items' False w1 of
                       Inl e \<Rightarrow> Inl e
                     | Inr (r, w2) \<Rightarrow> Inr (Some r, w2)))"

text \<open>
  The entry mapping of \<open>API.transferItems\<close>: the id must name a line of the source; the
  quantity is the one given, and zero when none is given.
\<close>

fun transferItems_map :: "item list \<Rightarrow> item_arg list \<Rightarrow> error + item_request list" where
  "transferItems_map sourceActorItems [] = Inr []"
| "transferItems_map sourceActorItems (itemData # rest) =
     (case find (\<lambda>actorItem. item_id actorItem = arg_item_id itemData) sourceActorItems of
        None \<Rightarrow> Inl (CustomError ''TransferItems | Could not find item'')
      | Some foundActorItem \<Rightarrow>
          (case transferItems_map sourceActorItems rest of
             Inl e \<Rightarrow> Inl e
           | Inr rs \<Rightarrow>
               Inr (\<lparr>req_id = arg_item_id itemData,
                     req_quantity = (case arg_quantity itemData of Some q \<Rightarrow> q | None \<Rightarrow> Num 0)\<rparr> # rs)))"

definition transferItems ::
  "arith \<Rightarrow> hooks \<Rightarrow> uuid \<Rightarrow> uuid \<Rightarrow> item_arg list \<Rightarrow> jsval \<Rightarrow> world \<Rightarrow>
     error + added list option \<times> world" where
  "transferItems ar h source target items interactionId w =
     (case Hooks_call h ITEM_PRE_TRANSFER w of
        (hookResult, w1) \<Rightarrow>
          if \<not> hookResult then Inr (None, w1)
          else if source = [] then Inl (CustomError ''TransferItems | Could not determine the UUID'')
          else (case docs w1 source of
                  None \<Rightarrow> Inl TypeError
                | Some sourceDoc \<Rightarrow>
                    (case transferItems_map (getDocumentItems w1 sourceDoc None) items of
                       Inl e \<Rightarrow> Inl e
                     | Inr items' \<Rightarrow>
                         if target = [] then Inl (CustomError ''TransferItems | Could not determine the UUID'')
                         else if \<not> interactionId_ok interactionId
                         then Inl (CustomError ''TransferItems | interactionId must be of type string or false'')
                         else (case transferItems_exec ar source target items' False w1 of
                                 Inl e \<Rightarrow> Inl e
                               | Inr (r, w2) \<Rightarrow> Inr (Some r, w2)))))"

text \<open>The records a transfer gave back, handed in again as the entries of another call.\<close>

definition added_as_arg :: "added \<Rightarrow> item_arg" where
  "added_as_arg r = ItemEntry (added_item r) (Some (added_quantity r))"

section \<open>The public attribute calls\<close>

text \<open>
  Modelled from the spec: \<open>lib.is_real_number\<close> is in \<open>lib/lib.js\<close>, not among the sources;
  it holds of the values of type number. The comparison \<open>quantity > 0\<close> converts its
  left side to a number: \<open>true\<close> is 1, \<open>false\<close> and \<open>null\<close> are 0, \<open>undefined\<close> is not a
  number and compares false. What a string converts to is the language's business; the
  parameter \<open>str_gt_0\<close> says which strings convert to a number above zero.
\<close>

definition is_real_number :: "jsval \<Rightarrow> bool" where
  "is_real_number v = (case v of JNum _ \<Rightarrow> True | _ \<Rightarrow> False)"

definition js_gt_0 :: "(string \<Rightarrow> bool) \<Rightarrow> jsval \<Rightarrow> bool" where
  "js_gt_0 str_gt_0 v =
     (case v of JNum n \<Rightarrow> 0 < n | JBool b \<Rightarrow> b | JStr s \<Rightarrow> str_gt_0 s | _ \<Rightarrow> False)"

datatype attr_arg = AttrObject obj | AttrArray "jsval list"

datatype rpc = ADD_ATTRIBUTE uuid obj | REMOVE_ATTRIBUTES uuid attr_arg

text \<open>
  The checks on an object of attribute paths and quantities, entry by entry: the first
  entry that fails a check throws.
\<close>

fun check_entries :: "(string \<Rightarrow> bool) \<Rightarrow> string \<Rightarrow> (string \<times> number) list \<Rightarrow> obj \<Rightarrow> error option" where
  "check_entries str_gt_0 fn actorData [] = None"
| "check_entries str_gt_0 fn actorData ((attribute, quantity) # rest) =
     (if map_of actorData attribute = None
      then Some (CustomError (fn @ '' | Could not find attribute''))
      else if \<not> is_real_number quantity \<and> js_gt_0 str_gt_0 quantity
      then Some (CustomError (fn @ '' | Attribute must be of type number and greater than 0''))
      else check_entries str_gt_0 fn actorData rest)"

fun check_paths :: "(string \<times> number) list \<Rightarrow> jsval list \<Rightarrow> error option" where
  "check_paths actorData [] = None"
| "check_paths actorData (attribute # rest) =
     (case attribute of
        JStr a \<Rightarrow>
          if map_of actorData a = None
          then Some (CustomError ''RemoveAttributes | Could not find attribute'')
          else check_paths actorData rest
      | _ \<Rightarrow> Some (CustomError ''RemoveAttributes | Each attribute in the array must be of type string''))"

text \<open>
  \<open>API.addAttributes\<close> and \<open>API.removeAttributes\<close> up to the call of the executor: an
  error thrown, \<open>None\<close> after a veto, or the request that is dispatched.
\<close>

definition addAttributes ::
  "(string \<Rightarrow> bool) \<Rightarrow> hooks \<Rightarrow> uuid \<Rightarrow> obj \<Rightarrow> jsval \<Rightarrow> world \<Rightarrow> error + rpc option \<times> world" where
  "addAttributes str_gt_0 h target attributes interactionId w =
     (case Hooks_call h ATTRIBUTE_PRE_ADD w of
        (hookResult, w1) \<Rightarrow>
          if \<not> hookResult then Inr (None, w1)
          else if target = [] then Inl (CustomError ''AddAttributes | Could not determine the UUID'')
          else (case docs w1 target of
                  None \<Rightarrow> Inl TypeError
                | Some targetActor \<Rightarrow>
                    (case check_entries str_gt_0 ''AddAttributes'' (doc_attributes targetActor) attributes of
                       Some e \<Rightarrow> Inl e
                     | None \<Rightarrow>
                         if \<not> interactionId_ok interactionId
                         then Inl (CustomError ''AddAttributes | interactionId must be of type string or false'')
                         else Inr (Some (ADD_ATTRIBUTE target attributes), w1))))"

definition removeAttributes ::
  "(string \<Rightarrow> bool) \<Rightarrow> hooks \<Rightarrow> uuid \<Rightarrow> attr_arg \<Rightarrow> jsval \<Rightarrow> world \<Rightarrow> error + rpc option \<times> world" where
  "removeAttributes str_gt_0 h target attributes interactionId w =
     (case Hooks_call h ATTRIBUTE_PRE_REMOVE w of
        (hookResult, w1) \<Rightarrow>
          if \<not> hookResult then Inr (None, w1)
          else if target = [] then Inl (CustomError ''RemoveAttributes | Could not determine the UUID'')
          else (case docs w1 target of
                  None \<Rightarrow> Inl TypeError
                | Some targetActor \<Rightarrow>
                    (case (case attributes of
                             AttrArray paths \<Rightarrow> check_paths (doc_attributes targetActor) paths
                           | AttrObject ob \<Rightarrow>
                               check_entries str_gt_0 ''RemoveAttributes'' (doc_attributes targetActor) ob) of
                       Some e \<Rightarrow> Inl e
                     | None \<Rightarrow>
                         if \<not> interactionId_ok interactionId
                         then Inl (CustomError ''RemoveAttributes | interactionId must be of type string or false'')
                         else Inr (Some (REMOVE_ATTRIBUTES target attributes), w1))))"

section \<open>Reading a world\<close>

text \<open>The quantity of the line with the given id on a document, if there is such a line.\<close>

definition line_quantity :: "world \<Rightarrow> uuid \<Rightarrow> nat \<Rightarrow> number option" where
  "line_quantity w t i =
     (case docs w t of
        None \<Rightarrow> None
      | Some d \<Rightarrow> map_option item_quantity (find (\<lambda>l. item_id l = i) (doc_items d)))"

text \<open>
  The quantity a request finds on its line, the new quantity the removal loop computes
  for it, and whether the line stays (the test \<open>newQuantity >= 1\<close>).
\<close>

definition quantity_of :: "item list \<Rightarrow> nat \<Rightarrow> number" where
  "quantity_of its i = (case find (\<lambda>l. item_id l = i) its of None \<Rightarrow> NaN | Some l \<Rightarrow> item_quantity l)"

definition new_quantity :: "arith \<Rightarrow> item list \<Rightarrow> item_request \<Rightarrow> number" where
  "new_quantity ar its rq = Math_max_0 (number_sub ar (quantity_of its (req_id rq)) (req_quantity rq))"

definition keeps :: "arith \<Rightarrow> item list \<Rightarrow> item_request \<Rightarrow> bool" where
  "keeps ar its rq = ge_1 (new_quantity ar its rq)"

text \<open>What a line is to its owner: name, type attribute, quantity.\<close>

definition line_view :: "item \<Rightarrow> string \<times> string \<times> number" where
  "line_view l = (item_name l, item_type l, item_quantity l)"

text \<open>
  A transfer from \<open>a\<close> to \<open>b\<close> followed by the transfer back of exactly the records the
  first one returned: the records of the first transfer, the world after it and the
  world after the second, when both complete.
\<close>

definition round_trip ::
  "arith \<Rightarrow> hooks \<Rightarrow> uuid \<Rightarrow> uuid \<Rightarrow> item_arg list \<Rightarrow> world \<Rightarrow> (added list \<times> world \<times> world) option" where
  "round_trip ar h a b items w =
     (case transferItems ar h a b items (JBool False) w of
        Inr (Some r1, w1) \<Rightarrow>
          (case transferItems ar h b a (map added_as_arg r1) (JBool False) w1 of
             Inr (Some r2, w2) \<Rightarrow> Some (r1, w1, w2)
           | _ \<Rightarrow> None)
      | _ \<Rightarrow> None)"

section \<open>The auto-deletion rule as the specification words it\<close>




section \<open>Example worlds\<close>

text \<open>
  Arithmetic that does not round. It is what the runtime computes wherever the exact
  result is a number it has, as on the whole numbers and the halves of the examples.
\<close>

definition exact :: arith where
  "exact = \<lparr>float_add = (+), float_sub = (-)\<rparr>"

definition chest_uuid :: uuid where
  "chest_uuid = ''Scene.a.Token.chest''"

definition chest :: "bool \<Rightarrow> bool \<Rightarrow> document" where
  "chest isClosed isLocked =
     \<lparr>doc_kind = TokenDocument,
      pile_flags = [(''enabled'', JBool True), (''isContainer'', JBool True),
                    (''closed'', JBool isClosed), (''locked'', JBool isLocked),
                    (''deleteWhenEmpty'', JStr ''default''), (''macro'', JStr []),
                    (''openSound'', JStr ''open.ogg''), (''closeSound'', JStr ''close.ogg''),
                    (''lockedSound'', JStr ''locked.ogg'')],
      doc_items = [], doc_attributes = []\<rparr>"

definition chest_world :: "bool \<Rightarrow> bool \<Rightarrow> world" where
  "chest_world isClosed isLocked =
     \<lparr>docs = Map.empty(chest_uuid \<mapsto> chest isClosed isLocked), macros = [],
      deleteEmptyPiles = True, itemTypeFilters = [], nextId = 0, trace = [], detached = []\<rparr>"

definition no_veto :: hooks where
  "no_veto n = True"

definition veto_unlock :: hooks where
  "veto_unlock n = (n \<noteq> PILE_PRE_UNLOCK)"


definition hero_uuid :: uuid where
  "hero_uuid = ''Actor.hero''"

definition potion :: item where
  "potion = \<lparr>item_id = 1, item_name = ''Potion'', item_type = ''consumable'', item_quantity = Num 5\<rparr>"

definition arrow :: item where
  "arrow = \<lparr>item_id = 2, item_name = ''Arrow'', item_type = ''ammo'', item_quantity = Num 3\<rparr>"

definition hero :: document where
  "hero = \<lparr>doc_kind = Actor, pile_flags = [], doc_items = [potion, arrow],
           doc_attributes = [(''currency.gold'', Num 5)]\<rparr>"

definition hero_world :: world where
  "hero_world = \<lparr>docs = Map.empty(hero_uuid \<mapsto> hero), macros = [],
                 deleteEmptyPiles = True, itemTypeFilters = [], nextId = 10, trace = [], detached = []\<rparr>"

definition loot_uuid :: uuid where
  "loot_uuid = ''Scene.a.Token.loot''"

definition loot :: "jsval \<Rightarrow> document" where
  "loot deleteWhenEmpty =
     \<lparr>doc_kind = TokenDocument,
      pile_flags = [(''enabled'', JBool True), (''isContainer'', JBool False),
                    (''deleteWhenEmpty'', deleteWhenEmpty), (''macro'', JStr [])],
      doc_items = [potion], doc_attributes = []\<rparr>"

definition loot_world :: "jsval \<Rightarrow> world" where
  "loot_world deleteWhenEmpty =
     \<lparr>docs = Map.empty(loot_uuid \<mapsto> loot deleteWhenEmpty), macros = [],
      deleteEmptyPiles = True, itemTypeFilters = [], nextId = 10, trace = [], detached = []\<rparr>"

definition bag_uuid :: uuid where
  "bag_uuid = ''Actor.bag''"

definition bag :: document where
  "bag = \<lparr>doc_kind = Actor, pile_flags = [], doc_items = [], doc_attributes = []\<rparr>"

definition bag_world :: world where
  "bag_world = \<lparr>docs = Map.empty(bag_uuid \<mapsto> bag), macros = [],
                deleteEmptyPiles = True, itemTypeFilters = [], nextId = 10, trace = [], detached = []\<rparr>"

definition party_world :: world where
  "party_world = \<lparr>docs = Map.empty(hero_uuid \<mapsto> hero, bag_uuid \<mapsto> bag), macros = [],
                  deleteEmptyPiles = True, itemTypeFilters = [], nextId = 10, trace = [], detached = []\<rparr>"

text \<open>A shelf with one and a half measures of oil.\<close>

definition oil :: item where
  "oil = \<lparr>item_id = 4, item_name = ''Oil'', item_type = ''consumable'', item_quantity = Num (3 / 2)\<rparr>"

definition shelf_uuid :: uuid where
  "shelf_uuid = ''Actor.shelf''"

definition shelf :: document where
  "shelf = \<lparr>doc_kind = Actor, pile_flags = [], doc_items = [oil], doc_attributes = []\<rparr>"

definition shelf_world :: world where
  "shelf_world = \<lparr>docs = Map.empty(shelf_uuid \<mapsto> shelf), macros = [],
                  deleteEmptyPiles = True, itemTypeFilters = [], nextId = 10, trace = [], detached = []\<rparr>"

text \<open>
  Three piles on tokens next to the hero: the loot holds a line of potions, the hoard
  holds gold, the trove holds both.
\<close>

definition hoard_uuid :: uuid where
  "hoard_uuid = ''Scene.a.Token.hoard''"

definition hoard :: "jsval \<Rightarrow> document" where
  "hoard deleteWhenEmpty =
     \<lparr>doc_kind = TokenDocument,
      pile_flags = [(''enabled'', JBool True), (''isContainer'', JBool False),
                    (''deleteWhenEmpty'', deleteWhenEmpty), (''macro'', JStr [])],
      doc_items = [], doc_attributes = [(''currency.gold'', Num 7)]\<rparr>"

definition trove_uuid :: uuid where
  "trove_uuid = ''Scene.a.Token.trove''"

definition trove :: "jsval \<Rightarrow> document" where
  "trove deleteWhenEmpty =
     \<lparr>doc_kind = TokenDocument,
      pile_flags = [(''enabled'', JBool True), (''isContainer'', JBool False),
                    (''deleteWhenEmpty'', deleteWhenEmpty), (''macro'', JStr [])],
      doc_items = [potion], doc_attributes = [(''currency.gold'', Num 7)]\<rparr>"

definition vault_world :: "jsval \<Rightarrow> world" where
  "vault_world deleteWhenEmpty =
     \<lparr>docs = Map.empty(hero_uuid \<mapsto> hero, loot_uuid \<mapsto> loot deleteWhenEmpty,
                         hoard_uuid \<mapsto> hoard deleteWhenEmpty, trove_uuid \<mapsto> trove deleteWhenEmpty),
      macros = [], deleteEmptyPiles = True, itemTypeFilters = [], nextId = 10, trace = [],
      detached = []\<rparr>"


section \<open>Auxiliary facts\<close>

lemma getProperty_setProperty:
  "getProperty (setProperty ob k v) k' = (if k' = k then v else getProperty ob k')"
  by (simp add: getProperty_def setProperty_def update_conv')

lemma distinct_setProperty:
  "distinct (map fst ob) \<Longrightarrow> distinct (map fst (setProperty ob k v))"
  by (simp add: setProperty_def distinct_update)

lemma map_of_mergeObject:
  "distinct (map fst other) \<Longrightarrow> map_of (mergeObject original other) = map_of original ++ map_of other"
proof (induction other arbitrary: original)
  case Nil
  then show ?case by (simp add: mergeObject_def)
next
  case (Cons e other)
  obtain k v where e: "e = (k, v)" by (cases e)
  from Cons.prems e have nk: "k \<notin> fst ` set other" and d: "distinct (map fst other)" by auto
  have "map_of (mergeObject original (e # other)) = map_of (mergeObject (AList.update k v original) other)"
    by (simp add: mergeObject_def e)
  also have "\<dots> = map_of (AList.update k v original) ++ map_of other"
    using Cons.IH [OF d] .
  also have "\<dots> = (map_of original)(k \<mapsto> v) ++ map_of other"
    by (simp add: update_conv')
  also have "\<dots> = map_of original ++ map_of (e # other)"
  proof
    fix x
    have "map_of other k = None" using nk by (simp add: map_of_eq_None_iff)
    then show "((map_of original)(k \<mapsto> v) ++ map_of other) x = (map_of original ++ map_of (e # other)) x"
      by (auto simp: e map_add_def split: option.splits)
  qed
  finally show ?case .
qed

lemma getProperty_mergeObject:
  "distinct (map fst other) \<Longrightarrow>
   getProperty (mergeObject original other) k =
     (if map_of other k = None then getProperty original k else getProperty other k)"
  by (auto simp: getProperty_def map_of_mergeObject map_add_def split: option.splits)

lemma mergeObject_same:
  "(\<forall>(k, v) \<in> set other. map_of original k = Some v) \<Longrightarrow> mergeObject original other = original"
proof (induction other)
  case Nil
  then show ?case by (simp add: mergeObject_def)
next
  case (Cons e other)
  obtain k v where e: "e = (k, v)" by (cases e)
  with Cons.prems have "map_of original k = Some v" by simp
  then have "AList.update k v original = original" by (rule update_triv)
  moreover have "mergeObject original other = original" using Cons by simp
  ultimately show ?case by (simp add: mergeObject_def e)
qed

lemma diffObject_same: "distinct (map fst ob) \<Longrightarrow> diffObject ob ob = []"
  by (auto simp: diffObject_def getProperty_def filter_empty_conv)

lemma docs_emit [simp]: "docs (emit e w) = docs w"
  by (simp add: emit_def)

lemma trace_emit [simp]: "trace (emit e w) = trace w @ [e]"
  by (simp add: emit_def)

lemma macros_emit [simp]: "macros (emit e w) = macros w"
  by (simp add: emit_def)

lemma setting_emit [simp]: "deleteEmptyPiles (emit e w) = deleteEmptyPiles w"
  by (simp add: emit_def)

lemma nextId_emit [simp]: "nextId (emit e w) = nextId w"
  by (simp add: emit_def)

lemma getItemPileData_emit [simp]: "getItemPileData (emit e w) t = getItemPileData w t"
  by (simp add: getItemPileData_def)

lemma isValidItemPile_emit [simp]: "isValidItemPile (emit e w) t = isValidItemPile w t"
  by (simp add: isValidItemPile_def)

lemma docs_executeItemPileMacro:
  "executeItemPileMacro t a w = Inr w' \<Longrightarrow> docs w' = docs w \<and> nextId w' = nextId w \<and> macros w' = macros w \<and> deleteEmptyPiles w' = deleteEmptyPiles w"
  by (auto simp: executeItemPileMacro_def Let_def split: if_splits jsval.splits)

lemma docs_macro_not_awaited [simp]: "docs (macro_not_awaited t a w) = docs w"
  by (simp add: macro_not_awaited_def split: sum.splits)

lemma trace_macro_not_awaited [simp]: "trace (macro_not_awaited t a w) = trace w"
  by (simp add: macro_not_awaited_def split: sum.splits)

lemma docs_updatedItemPile [simp]: "docs (updatedItemPile t diff w) = docs w"
  by (simp add: updatedItemPile_def Let_def)

lemma updateItemPile_exec_docs:
  assumes "updateItemPile_exec t newData w = Inr (r, w')"
  shows "\<exists>d. docs w t = Some d \<and> r = Completed \<and>
             docs w' = (docs w)(t \<mapsto> d\<lparr>pile_flags := mergeObject (pile_flags d) newData\<rparr>)"
  using assms
  by (auto simp: updateItemPile_exec_def Let_def lib_updateItemPile_def getItemPileData_def
           split: option.splits)

lemma updateItemPile_Completed:
  assumes "updateItemPile h t newData w = Inr (Completed, w')"
  shows "\<exists>d. docs w t = Some d \<and>
             docs w' = (docs w)(t \<mapsto> d\<lparr>pile_flags := mergeObject (pile_flags d) newData\<rparr>)"
  using assms updateItemPile_exec_docs [of t newData "emit (HookCall PILE_PRE_UPDATE) w" Completed w']
  by (auto simp: updateItemPile_def Hooks_call_def split: if_splits)

text \<open>
  Claim C4. On an enabled container pile whose configuration has each key once, after a
  lockItemPile call that ran to completion (no hook consumer vetoed it), isItemPileClosed
  and isItemPileLocked both return true, whatever the closed flag was before.
\<close>

theorem lockItemPile_closes:
  assumes d: "docs w t = Some d"
    and dist: "distinct (map fst (pile_flags d))"
    and en: "truthy (getProperty (pile_flags d) ''enabled'')"
    and co: "truthy (getProperty (pile_flags d) ''isContainer'')"
    and run: "lockItemPile h t w = Inr (Completed, w')"
  shows "isItemPileClosed w' t = JBool True \<and> isItemPileLocked w' t = JBool True"
proof -
  let ?data = "setProperty (setProperty (pile_flags d) ''closed'' (JBool True)) ''locked'' (JBool True)"
  from run d en co obtain w3 where u: "updateItemPile h t ?data w3 = Inr (Completed, w')"
    and d3: "docs w3 = docs w"
    by (auto simp: lockItemPile_def Let_def getItemPileData_def Hooks_call_def AudioHelper_play_def
             split: if_splits prod.splits)
  from updateItemPile_Completed [OF u] d d3
  have fl: "getItemPileData w' t = mergeObject (pile_flags d) ?data"
    by (auto simp: getItemPileData_def)
  have dd: "distinct (map fst ?data)" using dist by (simp add: distinct_setProperty)
  have "map_of (mergeObject (pile_flags d) ?data) = map_of (pile_flags d) ++ map_of ?data"
    by (rule map_of_mergeObject [OF dd])
  also have "\<dots> = map_of ?data"
    by (rule ext) (simp add: setProperty_def update_conv' map_add_def split: option.splits)
  finally have m: "\<And>k. getProperty (mergeObject (pile_flags d) ?data) k = getProperty ?data k"
    by (simp add: getProperty_def)
  show ?thesis using en co
    by (simp add: isItemPileClosed_def isItemPileLocked_def fl m getProperty_setProperty Let_def)
qed

lemmas pile_eval =
  chest_uuid_def chest_def chest_world_def no_veto_def veto_unlock_def
  lockItemPile_def openItemPile_def closeItemPile_def unlockItemPile_def rattleItemPile_def
  itemPileClicked_def updateItemPile_def updateItemPile_exec_def updatedItemPile_def
  lib_updateItemPile_def macro_not_awaited_def executeItemPileMacro_def isValidItemPile_def
  getItemPileData_def getProperty_def setProperty_def mergeObject_def diffObject_def
  isObjectEmpty_def Hooks_call_def AudioHelper_play_def emit_def isItemPileClosed_def
  isItemPileLocked_def Let_def

text \<open>
  A pile that was open and unlocked: the completed lock leaves it closed and locked.
\<close>

theorem lockItemPile_closes_witness:
  "docs (chest_world False False) chest_uuid = Some (chest False False) \<and>
   isItemPileClosed (chest_world False False) chest_uuid = JBool False \<and>
   (\<exists>w'. lockItemPile no_veto chest_uuid (chest_world False False) = Inr (Completed, w') \<and>
         isItemPileClosed w' chest_uuid = JBool True \<and> isItemPileLocked w' chest_uuid = JBool True)"
proof -
  obtain w' where r: "lockItemPile no_veto chest_uuid (chest_world False False) = Inr (Completed, w')"
    by (simp add: pile_eval)
  have d: "docs (chest_world False False) chest_uuid = Some (chest False False)"
    by (simp add: chest_world_def)
  have "isItemPileClosed w' chest_uuid = JBool True \<and> isItemPileLocked w' chest_uuid = JBool True"
    by (rule lockItemPile_closes [OF d _ _ _ r]) (simp_all add: chest_def getProperty_def)
  moreover have "isItemPileClosed (chest_world False False) chest_uuid = JBool False"
    by (simp add: pile_eval)
  ultimately show ?thesis using r d by blast
qed

text \<open>
  Claim C7. closeItemPile on an enabled container pile that is already closed: whatever the
  hook consumers answer, no sound is played, no macro runs and no notification is sent;
  when nobody vetoes, the configuration written is the one read, the diff that is
  broadcast is empty, and the world differs from the one before only by its trace.
\<close>

theorem closeItemPile_already_closed:
  assumes d: "docs w t = Some d"
    and dist: "distinct (map fst (pile_flags d))"
    and en: "truthy (getProperty (pile_flags d) ''enabled'')"
    and co: "truthy (getProperty (pile_flags d) ''isContainer'')"
    and cl: "getProperty (pile_flags d) ''closed'' = JBool True"
    and t: "t \<noteq> []"
  shows "closeItemPile h t w =
     Inr (if \<not> h PILE_PRE_CLOSE then
            (ReturnsUndefined, w\<lparr>trace := trace w @ [HookCall PILE_PRE_CLOSE]\<rparr>)
          else if \<not> h PILE_PRE_UPDATE then
            (ReturnsUndefined, w\<lparr>trace := trace w @ [HookCall PILE_PRE_CLOSE, HookCall PILE_PRE_UPDATE]\<rparr>)
          else
            (Completed, w\<lparr>trace := trace w @ [HookCall PILE_PRE_CLOSE, HookCall PILE_PRE_UPDATE,
                                                 Persist t (pile_flags d), UpdatedPile t []]\<rparr>))"
proof -
  from cl have mc: "map_of (pile_flags d) ''closed'' = Some (JBool True)"
    by (auto simp: getProperty_def split: option.splits)
  then have same: "setProperty (pile_flags d) ''closed'' (JBool True) = pile_flags d"
    by (simp add: setProperty_def update_triv)
  have "\<forall>(k, v) \<in> set (pile_flags d). map_of (pile_flags d) k = Some v"
    using dist by auto
  then have merge: "mergeObject (pile_flags d) (pile_flags d) = pile_flags d"
    by (rule mergeObject_same)
  have diff: "diffObject (pile_flags d) (pile_flags d) = []"
    by (rule diffObject_same [OF dist])
  have upd: "(docs w)(t \<mapsto> d) = docs w" using d by (rule map_upd_triv)
  have gu: "getProperty [] ''closed'' = JUndefined" "getProperty [] ''locked'' = JUndefined"
    by (simp_all add: getProperty_def)
  show ?thesis
    using d en co cl t
    by (simp add: closeItemPile_def getItemPileData_def Let_def same Hooks_call_def
          updateItemPile_def updateItemPile_exec_def merge diff lib_updateItemPile_def upd gu
          updatedItemPile_def isObjectEmpty_def emit_def)
qed

text \<open>
  The closed, unlocked chest: the whole trace of the call.
\<close>

theorem closeItemPile_already_closed_witness:
  "closeItemPile no_veto chest_uuid (chest_world True False) =
     Inr (Completed, (chest_world True False)\<lparr>trace :=
            [HookCall PILE_PRE_CLOSE, HookCall PILE_PRE_UPDATE,
             Persist chest_uuid (pile_flags (chest True False)), UpdatedPile chest_uuid []]\<rparr>)"
proof -
  have d: "docs (chest_world True False) chest_uuid = Some (chest True False)"
    by (simp add: chest_world_def)
  have "trace (chest_world True False) = []" by (simp add: chest_world_def)
  then show ?thesis
    using closeItemPile_already_closed [OF d, of no_veto]
    by (simp add: chest_def getProperty_def chest_uuid_def no_veto_def)
qed


text \<open>
  Claim C6 at a failing input: a consumer of the pre-unlock hook returns false, and
  unlockItemPile still completes and writes locked = false; openItemPile, given the same
  consumers on the same pile, stops at the veto with nothing written.
\<close>

theorem unlockItemPile_ignores_veto:
  "\<not> veto_unlock PILE_PRE_UNLOCK \<and>
   isItemPileLocked (chest_world True True) chest_uuid = JBool True \<and>
   (case unlockItemPile veto_unlock chest_uuid (chest_world True True) of
      Inl e \<Rightarrow> False
    | Inr (r, w') \<Rightarrow> r = Completed \<and> isItemPileLocked w' chest_uuid = JBool False
                    \<and> trace w' ! 0 = HookCall PILE_PRE_UNLOCK) \<and>
   openItemPile veto_unlock chest_uuid (chest_world True True) =
     Inr (ReturnsUndefined, (chest_world True True)\<lparr>trace := [HookCall PILE_PRE_UNLOCK]\<rparr>)"
  by (simp add: pile_eval)

text \<open>The vetoed unlock completes with the pile unlocked.\<close>

theorem unlockItemPile_ignores_veto_witness:
  "\<exists>w'. unlockItemPile veto_unlock chest_uuid (chest_world True True) = Inr (Completed, w') \<and>
        isItemPileLocked w' chest_uuid = JBool False"
  using unlockItemPile_ignores_veto
  by (cases "unlockItemPile veto_unlock chest_uuid (chest_world True True)") auto







lemmas attr_eval =
  addAttributes_def removeAttributes_def Hooks_call_def emit_def no_veto_def hero_world_def
  hero_def hero_uuid_def is_real_number_def js_gt_0_def interactionId_ok_def

text \<open>
  Claim C9 at failing inputs. The test \<open>!lib.is_real_number(quantity) && quantity > 0\<close>
  throws only for a value that is not a number and yet compares above zero. A negative
  number, zero, and a value of the wrong type that does not compare above zero (null) all
  pass it: the call returns the request it dispatches to the executor. The boolean true
  is the kind of value that does throw.
\<close>

theorem addAttributes_nonpositive_dispatched:
  "addAttributes str_gt_0 no_veto hero_uuid [(''currency.gold'', JNum (- 5))] (JBool False) hero_world =
     Inr (Some (ADD_ATTRIBUTE hero_uuid [(''currency.gold'', JNum (- 5))]),
          emit (HookCall ATTRIBUTE_PRE_ADD) hero_world)
   \<and> addAttributes str_gt_0 no_veto hero_uuid [(''currency.gold'', JNull)] (JBool False) hero_world =
     Inr (Some (ADD_ATTRIBUTE hero_uuid [(''currency.gold'', JNull)]),
          emit (HookCall ATTRIBUTE_PRE_ADD) hero_world)
   \<and> removeAttributes str_gt_0 no_veto hero_uuid (AttrObject [(''currency.gold'', JNum 0)]) (JBool False) hero_world =
     Inr (Some (REMOVE_ATTRIBUTES hero_uuid (AttrObject [(''currency.gold'', JNum 0)])),
          emit (HookCall ATTRIBUTE_PRE_REMOVE) hero_world)
   \<and> addAttributes str_gt_0 no_veto hero_uuid [(''currency.gold'', JBool True)] (JBool False) hero_world =
     Inl (CustomError ''AddAttributes | Attribute must be of type number and greater than 0'')"
  by (simp add: attr_eval)

text \<open>
  The request with quantity -5 is dispatched.
\<close>

theorem addAttributes_nonpositive_dispatched_witness:
  "\<exists>w'. addAttributes (\<lambda>s. False) no_veto hero_uuid [(''currency.gold'', JNum (- 5))] (JBool False) hero_world =
     Inr (Some (ADD_ATTRIBUTE hero_uuid [(''currency.gold'', JNum (- 5))]), w')"
  using addAttributes_nonpositive_dispatched [of "\<lambda>s. False"] by blast


section \<open>Removing items\<close>

lemma removeItems_loop_records:
  "removeItems_loop ar its reqs = Inr (recs, ups, dels) \<Longrightarrow>
   length recs = length reqs \<and>
   (\<forall>k < length reqs. \<exists>line. find (\<lambda>l. item_id l = req_id (reqs ! k)) its = Some line \<and>
      recs ! k =
        (if ge_1 (Math_max_0 (number_sub ar (item_quantity line) (req_quantity (reqs ! k))))
         then \<lparr>removed_item = line\<lparr>item_quantity := req_quantity (reqs ! k)\<rparr>,
               removed_quantity = req_quantity (reqs ! k), removed_deleted = False\<rparr>
         else \<lparr>removed_item = line,
               removed_quantity = item_quantity line, removed_deleted = True\<rparr>))"
proof (induction reqs arbitrary: recs ups dels)
  case Nil
  then show ?case by simp
next
  case (Cons rq reqs)
  from Cons.prems obtain line recs0 ups0 dels0 where
    f: "find (\<lambda>l. item_id l = req_id rq) its = Some line"
    and r: "removeItems_loop ar its reqs = Inr (recs0, ups0, dels0)"
    by (auto split: option.splits sum.splits)
  from Cons.IH [OF r] have len: "length recs0 = length reqs"
    and ih: "\<And>k. k < length reqs \<Longrightarrow> \<exists>line. find (\<lambda>l. item_id l = req_id (reqs ! k)) its = Some line \<and>
      recs0 ! k =
        (if ge_1 (Math_max_0 (number_sub ar (item_quantity line) (req_quantity (reqs ! k))))
         then \<lparr>removed_item = line\<lparr>item_quantity := req_quantity (reqs ! k)\<rparr>,
               removed_quantity = req_quantity (reqs ! k), removed_deleted = False\<rparr>
         else \<lparr>removed_item = line,
               removed_quantity = item_quantity line, removed_deleted = True\<rparr>)"
    by blast+
  have recs: "recs =
        (if ge_1 (Math_max_0 (number_sub ar (item_quantity line) (req_quantity rq)))
         then \<lparr>removed_item = line\<lparr>item_quantity := req_quantity rq\<rparr>,
               removed_quantity = req_quantity rq, removed_deleted = False\<rparr>
         else \<lparr>removed_item = line,
               removed_quantity = item_quantity line, removed_deleted = True\<rparr>) # recs0"
    using Cons.prems f r by (auto simp: Let_def split: if_splits)
  show ?case
  proof (intro conjI allI impI)
    show "length recs = length (rq # reqs)" using recs len by simp
  next
    fix k assume k: "k < length (rq # reqs)"
    show "\<exists>line. find (\<lambda>l. item_id l = req_id ((rq # reqs) ! k)) its = Some line \<and>
      recs ! k =
        (if ge_1 (Math_max_0 (number_sub ar (item_quantity line) (req_quantity ((rq # reqs) ! k))))
         then \<lparr>removed_item = line\<lparr>item_quantity := req_quantity ((rq # reqs) ! k)\<rparr>,
               removed_quantity = req_quantity ((rq # reqs) ! k), removed_deleted = False\<rparr>
         else \<lparr>removed_item = line,
               removed_quantity = item_quantity line, removed_deleted = True\<rparr>)"
    proof (cases k)
      case 0
      then show ?thesis using f recs by simp
    next
      case (Suc j)
      with k have "j < length reqs" by simp
      from ih [OF this] show ?thesis using Suc recs by auto
    qed
  qed
qed

lemma removeItems_loop_queues:
  "removeItems_loop ar its reqs = Inr (recs, ups, dels) \<Longrightarrow>
   ups = map (\<lambda>rq. (req_id rq, new_quantity ar its rq)) (filter (keeps ar its) reqs)
   \<and> dels = map req_id (filter (\<lambda>rq. \<not> keeps ar its rq) reqs)"
proof (induction reqs arbitrary: recs ups dels)
  case Nil
  then show ?case by simp
next
  case (Cons rq reqs)
  from Cons.prems obtain line recs0 ups0 dels0 where
    f: "find (\<lambda>l. item_id l = req_id rq) its = Some line"
    and r: "removeItems_loop ar its reqs = Inr (recs0, ups0, dels0)"
    by (auto split: option.splits sum.splits)
  have id: "item_id line = req_id rq" using f by (auto simp: find_Some_iff)
  have q: "quantity_of its (req_id rq) = item_quantity line" using f by (simp add: quantity_of_def)
  have n: "new_quantity ar its rq = Math_max_0 (number_sub ar (item_quantity line) (req_quantity rq))"
    by (simp add: new_quantity_def q)
  note ih = Cons.IH [OF r]
  show ?case
  proof (cases "keeps ar its rq")
    case True
    then have "ge_1 (Math_max_0 (number_sub ar (item_quantity line) (req_quantity rq)))"
      by (simp add: keeps_def n)
    then show ?thesis using Cons.prems f r ih True id n by (auto simp: Let_def)
  next
    case False
    then have "\<not> ge_1 (Math_max_0 (number_sub ar (item_quantity line) (req_quantity rq)))"
      by (simp add: keeps_def n)
    then show ?thesis using Cons.prems f r ih False id n by (auto simp: Let_def)
  qed
qed

lemma updateEmbeddedDocuments_map:
  "distinct (map fst ups) \<Longrightarrow>
   updateEmbeddedDocuments ups its =
     map (\<lambda>l. case map_of ups (item_id l) of None \<Rightarrow> l | Some q \<Rightarrow> l\<lparr>item_quantity := q\<rparr>) its"
proof (induction ups arbitrary: its)
  case Nil
  then show ?case by (simp add: updateEmbeddedDocuments_def)
next
  case (Cons u ups)
  from Cons.prems have d: "distinct (map fst ups)" and n: "map_of ups (fst u) = None"
    by (auto simp: map_of_eq_None_iff)
  have "updateEmbeddedDocuments (u # ups) its = updateEmbeddedDocuments ups (updateOne u its)"
    by (simp add: updateEmbeddedDocuments_def)
  also have "\<dots> = map (\<lambda>l. case map_of ups (item_id l) of None \<Rightarrow> l | Some q \<Rightarrow> l\<lparr>item_quantity := q\<rparr>)
                     (updateOne u its)"
    by (rule Cons.IH [OF d])
  also have "\<dots> = map (\<lambda>l. case map_of (u # ups) (item_id l) of None \<Rightarrow> l | Some q \<Rightarrow> l\<lparr>item_quantity := q\<rparr>) its"
    using n by (cases u) (auto simp: updateOne_def)
  finally show ?case .
qed

lemma find_map_same_id:
  assumes "\<And>l. item_id (F l) = item_id l"
  shows "find (\<lambda>l. item_id l = i) (map F its) = map_option F (find (\<lambda>l. item_id l = i) its)"
  using assms by (induction its) auto

lemma find_deleteEmbeddedDocuments:
  "find (\<lambda>l. item_id l = i) (deleteEmbeddedDocuments dels its) =
     (if i \<in> set dels then None else find (\<lambda>l. item_id l = i) its)"
  by (induction its) (auto simp: deleteEmbeddedDocuments_def)

lemma find_updateEmbeddedDocuments:
  assumes "distinct (map fst ups)"
  shows "find (\<lambda>l. item_id l = i) (updateEmbeddedDocuments ups its) =
     map_option (\<lambda>l. case map_of ups i of None \<Rightarrow> l | Some q \<Rightarrow> l\<lparr>item_quantity := q\<rparr>)
       (find (\<lambda>l. item_id l = i) its)"
proof -
  let ?F = "\<lambda>l. case map_of ups (item_id l) of None \<Rightarrow> l | Some q \<Rightarrow> l\<lparr>item_quantity := q\<rparr>"
  have same: "\<And>l. item_id (?F l) = item_id l" by (simp split: option.splits)
  have "find (\<lambda>l. item_id l = i) (map ?F its) = map_option ?F (find (\<lambda>l. item_id l = i) its)"
    by (rule find_map_same_id [of ?F, OF same])
  also have "\<dots> = map_option (\<lambda>l. case map_of ups i of None \<Rightarrow> l | Some q \<Rightarrow> l\<lparr>item_quantity := q\<rparr>)
       (find (\<lambda>l. item_id l = i) its)"
  proof (cases "find (\<lambda>l. item_id l = i) its")
    case None
    then show ?thesis by simp
  next
    case (Some l)
    then have "item_id l = i" by (auto simp: find_Some_iff)
    with Some show ?thesis by simp
  qed
  finally show ?thesis by (simp add: updateEmbeddedDocuments_map [OF assms])
qed


lemma checkItemPileShouldBeDeleted_Some:
  "docs w t = Some d \<Longrightarrow>
   checkItemPileShouldBeDeleted t w =
     (doc_kind d = TokenDocument \<and> truthy (getProperty (pile_flags d) ''enabled'') \<and>
      property_truthy (shouldDelete_lookup (deleteEmptyPiles w) (getProperty (pile_flags d) ''deleteWhenEmpty'')) \<and>
      isItemPileEmpty d)"
  by (auto simp: checkItemPileShouldBeDeleted_def getItemPileData_def Let_def)

lemma removeItems_exec_result:
  assumes d: "docs w t = Some d" and run: "removeItems_exec ar t items tr w = Inr (recs, w')"
  shows "\<exists>ups dels. removeItems_loop ar (doc_items d) items = Inr (recs, ups, dels) \<and>
     docs w' =
       (let d' = d\<lparr>doc_items := deleteEmbeddedDocuments dels (updateEmbeddedDocuments ups (doc_items d))\<rparr>
        in if \<not> tr \<and> doc_kind d = TokenDocument \<and> truthy (getProperty (pile_flags d) ''enabled'')
              \<and> property_truthy (shouldDelete_lookup (deleteEmptyPiles w) (getProperty (pile_flags d) ''deleteWhenEmpty''))
              \<and> isItemPileEmpty d'
           then (docs w)(t := None) else (docs w)(t \<mapsto> d'))
     \<and> nextId w' = nextId w \<and> macros w' = macros w \<and> deleteEmptyPiles w' = deleteEmptyPiles w"
proof -
  from run d obtain ups dels where
    loop: "removeItems_loop ar (doc_items d) items = Inr (recs, ups, dels)"
    by (auto simp: removeItems_exec_def Let_def split: sum.splits if_splits)
  let ?d' = "d\<lparr>doc_items := deleteEmbeddedDocuments dels (updateEmbeddedDocuments ups (doc_items d))\<rparr>"
  let ?w2 = "emit (HookNotify ITEM_REMOVE) (setItems t d (doc_items ?d') w)"
  have d2: "docs ?w2 = (docs w)(t \<mapsto> ?d')" by (simp add: setItems_def)
  have o2: "nextId ?w2 = nextId w" "macros ?w2 = macros w" "deleteEmptyPiles ?w2 = deleteEmptyPiles w"
    by (simp_all add: setItems_def)
  show ?thesis
  proof (cases tr)
    case True
    with run d loop have "w' = ?w2" by (simp add: removeItems_exec_def Let_def)
    with True d2 o2 loop show ?thesis by (simp add: Let_def)
  next
    case False
    with run d loop obtain w3 where m: "executeItemPileMacro t ''removeItems'' ?w2 = Inr w3"
      and w': "w' = (if checkItemPileShouldBeDeleted t w3
                     then deleteItemPile_exec t (emit (Rerender t (checkItemPileShouldBeDeleted t w3)) w3)
                     else emit (Rerender t (checkItemPileShouldBeDeleted t w3)) w3)"
      by (auto simp: removeItems_exec_def Let_def split: sum.splits)
    from docs_executeItemPileMacro [OF m] d2 o2
    have d3: "docs w3 = (docs w)(t \<mapsto> ?d')" and o3: "nextId w3 = nextId w" "macros w3 = macros w"
      "deleteEmptyPiles w3 = deleteEmptyPiles w"
      by simp_all
    have d3t: "docs w3 t = Some ?d'" using d3 by simp
    have chk: "checkItemPileShouldBeDeleted t w3 =
       (doc_kind d = TokenDocument \<and> truthy (getProperty (pile_flags d) ''enabled'') \<and>
        property_truthy (shouldDelete_lookup (deleteEmptyPiles w) (getProperty (pile_flags d) ''deleteWhenEmpty'')) \<and>
        isItemPileEmpty ?d')"
      by (simp add: checkItemPileShouldBeDeleted_Some [OF d3t] o3)
    show ?thesis
      using loop False w' d3 o3 chk
      by (auto simp: Let_def deleteItemPile_exec_def)
  qed
qed

lemma request_unique:
  assumes "distinct (map req_id items)" "k < length items" "rq \<in> set items"
    "req_id rq = req_id (items ! k)"
  shows "rq = items ! k"
proof -
  from assms(1) have "inj_on req_id (set items)" by (simp add: distinct_map)
  moreover have "items ! k \<in> set items" using assms(2) by simp
  ultimately show ?thesis using assms(3,4) by (auto dest: inj_onD)
qed

lemmas item_eval =
  removeItems_exec_def addItems_exec_def transferItems_exec_def addItems_def transferItems_def
  setItems_def updateEmbeddedDocuments_def updateOne_def deleteEmbeddedDocuments_def
  getSimilarItem_def getDocumentItems_def removed_as_item_data_def added_as_arg_def
  arg_item_id_def arg_quantity_def
  interactionId_ok_def executeItemPileMacro_def isValidItemPile_def getItemPileData_def
  getProperty_def checkItemPileShouldBeDeleted_def shouldDelete_lookup_def property_truthy_def
  isItemPileEmpty_def
  deleteItemPile_exec_def Hooks_call_def emit_def Let_def line_quantity_def no_veto_def
  number_add_def number_sub_def Math_max_0_def ge_1_def gt_0_def number_truthy_def exact_def
  hero_world_def hero_def hero_uuid_def potion_def arrow_def loot_uuid_def loot_def loot_world_def
  bag_uuid_def bag_def bag_world_def

text \<open>
  Claim C1 as stated fails in two ways. One and a half measures of oil, one asked for:
  \<open>max(0, c - r)\<close> is a half, which is not 0, and yet the loop, whose test is
  \<open>newQuantity >= 1\<close>, deletes the line and reports the one and a half it held. And when
  one request names the line of 5 potions twice, for 3 and for 5, both entries read the
  5 the line had: the first reports 3 with deleted = false, the second deletes the line.
\<close>

theorem removeItems_line_quantity_counterexample:
  "Math_max_0 (number_sub exact (Num (3 / 2)) (Num 1)) = Num (1 / 2)
   \<and> (case removeItems_exec exact shelf_uuid [\<lparr>req_id = 4, req_quantity = Num 1\<rparr>] False shelf_world of
        Inl e \<Rightarrow> False
      | Inr (recs, w') \<Rightarrow>
          recs = [\<lparr>removed_item = oil, removed_quantity = Num (3 / 2), removed_deleted = True\<rparr>]
          \<and> line_quantity w' shelf_uuid 4 = None)
   \<and> (case removeItems_exec exact hero_uuid
              [\<lparr>req_id = 1, req_quantity = Num 3\<rparr>, \<lparr>req_id = 1, req_quantity = Num 5\<rparr>] False hero_world of
        Inl e \<Rightarrow> False
      | Inr (recs, w') \<Rightarrow>
          map removed_quantity recs = [Num 3, Num 5] \<and> map removed_deleted recs = [False, True]
          \<and> line_quantity w' hero_uuid 1 = None)"
  by (simp add: item_eval shelf_world_def shelf_def shelf_uuid_def oil_def)

text \<open>
  Claim C1, amended. A removal that completes, the request naming each line at most once:
  for the line with current quantity c and requested quantity r the new quantity is
  n = max(0, c - r), the difference as the runtime computes it. When n is at least 1 the
  line stays with quantity n and the record reports r with deleted = false. Otherwise,
  and so also when n lies between 0 and 1, the line is gone and the record reports c with
  deleted = true.
\<close>

theorem removeItems_line_quantity:
  assumes d: "docs w t = Some d"
    and req: "distinct (map req_id items)"
    and run: "removeItems_exec ar t items isTransfer w = Inr (itemsRemoved, w')"
    and k: "k < length items"
  shows "length itemsRemoved = length items \<and>
    (\<exists>line. find (\<lambda>l. item_id l = req_id (items ! k)) (doc_items d) = Some line \<and>
       (let c = item_quantity line; r = req_quantity (items ! k);
            n = Math_max_0 (number_sub ar c r) in
          if ge_1 n
          then itemsRemoved ! k = \<lparr>removed_item = line\<lparr>item_quantity := r\<rparr>, removed_quantity = r,
                                    removed_deleted = False\<rparr>
               \<and> line_quantity w' t (req_id (items ! k)) = Some n
          else itemsRemoved ! k = \<lparr>removed_item = line, removed_quantity = c, removed_deleted = True\<rparr>
               \<and> line_quantity w' t (req_id (items ! k)) = None))"
proof -
  let ?i = "req_id (items ! k)"
  let ?r = "req_quantity (items ! k)"
  from removeItems_exec_result [OF d run] obtain ups dels where
    loop: "removeItems_loop ar (doc_items d) items = Inr (itemsRemoved, ups, dels)"
    and dw: "docs w' =
       (let d' = d\<lparr>doc_items := deleteEmbeddedDocuments dels (updateEmbeddedDocuments ups (doc_items d))\<rparr>
        in if \<not> isTransfer \<and> doc_kind d = TokenDocument \<and> truthy (getProperty (pile_flags d) ''enabled'')
              \<and> property_truthy (shouldDelete_lookup (deleteEmptyPiles w) (getProperty (pile_flags d) ''deleteWhenEmpty''))
              \<and> isItemPileEmpty d'
           then (docs w)(t := None) else (docs w)(t \<mapsto> d'))"
    by blast
  let ?new = "deleteEmbeddedDocuments dels (updateEmbeddedDocuments ups (doc_items d))"
  from removeItems_loop_records [OF loop] k obtain line where
    len: "length itemsRemoved = length items"
    and f: "find (\<lambda>l. item_id l = ?i) (doc_items d) = Some line"
    and rec: "itemsRemoved ! k =
        (if ge_1 (Math_max_0 (number_sub ar (item_quantity line) ?r))
         then \<lparr>removed_item = line\<lparr>item_quantity := ?r\<rparr>, removed_quantity = ?r, removed_deleted = False\<rparr>
         else \<lparr>removed_item = line, removed_quantity = item_quantity line, removed_deleted = True\<rparr>)"
    by blast
  let ?c = "item_quantity line"
  let ?n = "Math_max_0 (number_sub ar ?c ?r)"
  from removeItems_loop_queues [OF loop] have
    ups: "ups = map (\<lambda>rq. (req_id rq, new_quantity ar (doc_items d) rq))
                  (filter (keeps ar (doc_items d)) items)"
    and dels: "dels = map req_id (filter (\<lambda>rq. \<not> keeps ar (doc_items d) rq) items)"
    by blast+
  have q: "quantity_of (doc_items d) ?i = ?c" using f by (simp add: quantity_of_def)
  have nq: "new_quantity ar (doc_items d) (items ! k) = ?n" by (simp add: new_quantity_def q)
  have kp: "keeps ar (doc_items d) (items ! k) = ge_1 ?n" by (simp add: keeps_def nq)
  have mem: "items ! k \<in> set items" using k by simp
  have "map fst ups = map req_id (filter (keeps ar (doc_items d)) items)"
    by (simp add: ups comp_def)
  then have dups: "distinct (map fst ups)" using req by (simp add: distinct_map_filter)
  have lq: "line_quantity w' t ?i = map_option item_quantity (find (\<lambda>l. item_id l = ?i) ?new)"
  proof (cases "docs w' t")
    case None
    with dw have "isItemPileEmpty (d\<lparr>doc_items := ?new\<rparr>)" by (auto simp: Let_def split: if_splits)
    then have "?new = []" by (simp add: isItemPileEmpty_def)
    with None show ?thesis by (simp add: line_quantity_def)
  next
    case (Some d')
    with dw have "d' = d\<lparr>doc_items := ?new\<rparr>" by (auto simp: Let_def split: if_splits)
    with Some show ?thesis by (simp add: line_quantity_def)
  qed
  have fnew: "find (\<lambda>l. item_id l = ?i) ?new =
      (if ?i \<in> set dels then None
       else map_option (\<lambda>l. case map_of ups ?i of None \<Rightarrow> l | Some q \<Rightarrow> l\<lparr>item_quantity := q\<rparr>) (Some line))"
    by (simp add: find_deleteEmbeddedDocuments find_updateEmbeddedDocuments [OF dups] f)
  show ?thesis
  proof (cases "ge_1 ?n")
    case True
    have notdel: "?i \<notin> set dels"
    proof
      assume "?i \<in> set dels"
      then obtain rq where rq: "rq \<in> set items" "\<not> keeps ar (doc_items d) rq" "req_id rq = ?i"
        by (auto simp: dels)
      from request_unique [OF req k rq(1) rq(3)] rq(2) kp True show False by simp
    qed
    have "(?i, ?n) \<in> set ups" using mem kp True nq by (force simp: ups)
    then have "map_of ups ?i = Some ?n" using dups by (rule map_of_is_SomeI [rotated])
    with fnew notdel lq have "line_quantity w' t ?i = Some ?n" by simp
    with True len f rec show ?thesis by (simp add: Let_def)
  next
    case False
    then have "?i \<in> set dels" using mem kp by (force simp: dels)
    with fnew lq have "line_quantity w' t ?i = None" by simp
    with False len f rec show ?thesis by (simp add: Let_def)
  qed
qed

text \<open>
  Two of five potions and seven of three arrows are asked of the hero: the potions go down
  to three and report 2, the arrows are deleted and report 3.
\<close>

theorem removeItems_line_quantity_witness:
  "\<exists>recs w'.
     removeItems_exec exact hero_uuid
       [\<lparr>req_id = 1, req_quantity = Num 2\<rparr>, \<lparr>req_id = 2, req_quantity = Num 7\<rparr>]
       False hero_world = Inr (recs, w') \<and>
     recs ! 0 = \<lparr>removed_item = potion\<lparr>item_quantity := Num 2\<rparr>, removed_quantity = Num 2,
                 removed_deleted = False\<rparr> \<and>
     line_quantity w' hero_uuid 1 = Some (Num 3) \<and>
     recs ! 1 = \<lparr>removed_item = arrow, removed_quantity = Num 3, removed_deleted = True\<rparr> \<and>
     line_quantity w' hero_uuid 2 = None"
proof -
  let ?items = "[\<lparr>req_id = 1, req_quantity = Num 2\<rparr>, \<lparr>req_id = 2, req_quantity = Num 7\<rparr>]"
  obtain recs w' where run: "removeItems_exec exact hero_uuid ?items False hero_world = Inr (recs, w')"
    by (simp add: item_eval)
  have d: "docs hero_world hero_uuid = Some hero" by (simp add: hero_world_def)
  have dist: "distinct (map req_id ?items)" by simp
  have "recs ! 0 = \<lparr>removed_item = potion\<lparr>item_quantity := Num 2\<rparr>, removed_quantity = Num 2,
                     removed_deleted = False\<rparr> \<and>
     line_quantity w' hero_uuid 1 = Some (Num 3)"
    using removeItems_line_quantity [OF d dist run, of 0]
    by (simp add: hero_def potion_def arrow_def number_sub_def Math_max_0_def ge_1_def exact_def Let_def)
  moreover have "recs ! 1 = \<lparr>removed_item = arrow, removed_quantity = Num 3, removed_deleted = True\<rparr> \<and>
     line_quantity w' hero_uuid 2 = None"
    using removeItems_line_quantity [OF d dist run, of 1]
    by (simp add: hero_def potion_def arrow_def number_sub_def Math_max_0_def ge_1_def exact_def Let_def)
  ultimately show ?thesis using run by blast
qed


section \<open>Adding items\<close>

lemma addItems_exec_result:
  assumes d: "docs w t = Some d" and run: "addItems_exec ar t items tr w = Inr (r, w')"
    and loop: "addItems_loop ar (doc_items d) items = (added0, create, ups)"
  shows "docs w' = (docs w)(t \<mapsto> d\<lparr>doc_items :=
            updateEmbeddedDocuments ups (doc_items d @ createEmbeddedDocuments (nextId w) create)\<rparr>)
     \<and> r = added0 @ map (\<lambda>i. \<lparr>added_item = i, added_quantity = item_quantity i\<rparr>)
                     (createEmbeddedDocuments (nextId w) create)
     \<and> nextId w' = nextId w + length create \<and> macros w' = macros w
     \<and> deleteEmptyPiles w' = deleteEmptyPiles w"
proof (cases tr)
  case True
  with run d loop show ?thesis
    by (auto simp: addItems_exec_def Let_def setItems_def)
next
  case False
  let ?w2 = "emit (HookNotify ITEM_ADD) (setItems t d
      (updateEmbeddedDocuments ups (doc_items d @ createEmbeddedDocuments (nextId w) create))
      (w\<lparr>nextId := nextId w + length create\<rparr>))"
  from run d loop False obtain w3 where m: "executeItemPileMacro t ''addItems'' ?w2 = Inr w3"
    and w': "w' = emit (Rerender t False) w3"
    and r: "r = added0 @ map (\<lambda>i. \<lparr>added_item = i, added_quantity = item_quantity i\<rparr>)
                     (createEmbeddedDocuments (nextId w) create)"
    by (auto simp: addItems_exec_def Let_def split: sum.splits)
  from docs_executeItemPileMacro [OF m] w' r show ?thesis
    by (simp add: setItems_def)
qed

text \<open>
  Claim C10. One call of the executor's addItems with two entries of the same identity,
  the identity matching no line the target has when the call begins: both entries are
  created, so the target ends with two new lines, one per entry, after the lines it had.
\<close>

theorem addItems_same_call_two_lines:
  assumes d: "docs w t = Some d"
    and nomatch: "getSimilarItem (doc_items d) (item_id a) (item_name a) (item_type a) = None"
    and same: "item_id b = item_id a" "item_name b = item_name a" "item_type b = item_type a"
    and run: "addItems_exec ar t [\<lparr>data_item = a, data_quantity = qa\<rparr>, \<lparr>data_item = b, data_quantity = qb\<rparr>]
                isTransfer w = Inr (r, w')"
  shows "\<exists>d'. docs w' t = Some d' \<and>
     doc_items d' = doc_items d @
       [a\<lparr>item_id := nextId w, item_quantity := (case qa of Some q \<Rightarrow> q | None \<Rightarrow> Num 1)\<rparr>,
        b\<lparr>item_id := Suc (nextId w), item_quantity := (case qb of Some q \<Rightarrow> q | None \<Rightarrow> Num 1)\<rparr>]"
proof -
  have loop: "addItems_loop ar (doc_items d)
                [\<lparr>data_item = a, data_quantity = qa\<rparr>, \<lparr>data_item = b, data_quantity = qb\<rparr>] =
              ([], [a\<lparr>item_quantity := (case qa of Some q \<Rightarrow> q | None \<Rightarrow> Num 1)\<rparr>,
                    b\<lparr>item_quantity := (case qb of Some q \<Rightarrow> q | None \<Rightarrow> Num 1)\<rparr>], [])"
    using nomatch same by (simp add: Let_def)
  from addItems_exec_result [OF d run loop] show ?thesis
    by (simp add: updateEmbeddedDocuments_def)
qed

text \<open>Two entries for the same potion put into an empty bag in one call make two lines.\<close>

theorem addItems_same_call_two_lines_witness:
  "\<exists>r w' d'.
     addItems_exec exact bag_uuid [\<lparr>data_item = potion, data_quantity = Some (Num 2)\<rparr>,
                                   \<lparr>data_item = potion, data_quantity = Some (Num 3)\<rparr>] False bag_world
       = Inr (r, w')
     \<and> docs w' bag_uuid = Some d'
     \<and> doc_items d' = [potion\<lparr>item_id := 10, item_quantity := Num 2\<rparr>,
                        potion\<lparr>item_id := 11, item_quantity := Num 3\<rparr>]"
proof -
  obtain r w' where run:
    "addItems_exec exact bag_uuid [\<lparr>data_item = potion, data_quantity = Some (Num 2)\<rparr>,
                                   \<lparr>data_item = potion, data_quantity = Some (Num 3)\<rparr>] False bag_world
       = Inr (r, w')"
    by (simp add: item_eval)
  have d: "docs bag_world bag_uuid = Some bag" by (simp add: bag_world_def)
  have nomatch: "getSimilarItem (doc_items bag) (item_id potion) (item_name potion) (item_type potion) = None"
    by (simp add: bag_def getSimilarItem_def)
  from addItems_same_call_two_lines [OF d nomatch refl refl refl run]
  obtain d' where "docs w' bag_uuid = Some d'"
    "doc_items d' = [potion\<lparr>item_id := 10, item_quantity := Num 2\<rparr>,
                     potion\<lparr>item_id := 11, item_quantity := Num 3\<rparr>]"
    by (auto simp: bag_def bag_world_def)
  with run show ?thesis by blast
qed

text \<open>
  Claim C3. On a target with no lines, addItems with quantity n and then addItems with the
  same identity and quantity m, both calls completing: the target has exactly one line, of
  that name and type, with quantity n + m, the sum as the runtime computes it.
\<close>

theorem addItems_twice_merges:
  assumes d: "docs w t = Some d"
    and empty: "doc_items d = []"
    and same: "item_id b = item_id a" "item_name b = item_name a" "item_type b = item_type a"
    and run1: "addItems ar h t [\<lparr>data_item = a, data_quantity = Some n\<rparr>] interactionId w = Inr (Some r1, w1)"
    and run2: "addItems ar h' t [\<lparr>data_item = b, data_quantity = Some m\<rparr>] interactionId' w1 = Inr (Some r2, w2)"
  shows "\<exists>d2. docs w2 t = Some d2 \<and>
           doc_items d2 = [a\<lparr>item_id := nextId w, item_quantity := number_add ar n m\<rparr>]"
proof -
  let ?w0 = "emit (HookCall ITEM_PRE_ADD) w"
  from run1 have e1: "addItems_exec ar t [\<lparr>data_item = a, data_quantity = Some n\<rparr>] False ?w0 = Inr (r1, w1)"
    by (auto simp: addItems_def Hooks_call_def Let_def split: if_splits sum.splits)
  have d0: "docs ?w0 t = Some d" using d by simp
  have loop1: "addItems_loop ar (doc_items d) [\<lparr>data_item = a, data_quantity = Some n\<rparr>] =
                 ([], [a\<lparr>item_quantity := n\<rparr>], [])"
    by (simp add: empty getSimilarItem_def Let_def)
  let ?line = "a\<lparr>item_id := nextId w, item_quantity := n\<rparr>"
  let ?d1 = "d\<lparr>doc_items := [?line]\<rparr>"
  from addItems_exec_result [OF d0 e1 loop1]
  have d1: "docs w1 t = Some ?d1"
    by (simp add: updateEmbeddedDocuments_def empty)
  let ?w1 = "emit (HookCall ITEM_PRE_ADD) w1"
  from run2 have e2: "addItems_exec ar t [\<lparr>data_item = b, data_quantity = Some m\<rparr>] False ?w1 = Inr (r2, w2)"
    by (auto simp: addItems_def Hooks_call_def Let_def split: if_splits sum.splits)
  have d1': "docs ?w1 t = Some ?d1" using d1 by simp
  have loop2: "addItems_loop ar (doc_items ?d1) [\<lparr>data_item = b, data_quantity = Some m\<rparr>] =
                 ([\<lparr>added_item = ?line\<lparr>item_quantity := number_add ar n m\<rparr>, added_quantity = m\<rparr>], [],
                  [(nextId w, number_add ar n m)])"
    using same by (simp add: getSimilarItem_def Let_def)
  from addItems_exec_result [OF d1' e2 loop2]
  show ?thesis
    by (simp add: updateEmbeddedDocuments_def updateOne_def)
qed

text \<open>Two potions, then three more of the same, into an empty bag: one line of five.\<close>

theorem addItems_twice_merges_witness:
  "\<exists>r1 w1 r2 w2 d2.
     addItems exact no_veto bag_uuid [\<lparr>data_item = potion, data_quantity = Some (Num 2)\<rparr>] (JBool False) bag_world
       = Inr (Some r1, w1)
     \<and> addItems exact no_veto bag_uuid [\<lparr>data_item = potion, data_quantity = Some (Num 3)\<rparr>] (JBool False) w1
       = Inr (Some r2, w2)
     \<and> docs w2 bag_uuid = Some d2
     \<and> doc_items d2 = [potion\<lparr>item_id := 10, item_quantity := Num 5\<rparr>]"
proof -
  let ?w1 = "\<lparr>docs = Map.empty(bag_uuid \<mapsto> bag\<lparr>doc_items := [potion\<lparr>item_id := 10, item_quantity := Num 2\<rparr>]\<rparr>),
             macros = [], deleteEmptyPiles = True, itemTypeFilters = [], nextId = 11,
             trace = [HookCall ITEM_PRE_ADD, HookNotify ITEM_ADD, Rerender bag_uuid False],
             detached = []\<rparr>"
  have run1: "addItems exact no_veto bag_uuid [\<lparr>data_item = potion, data_quantity = Some (Num 2)\<rparr>] (JBool False) bag_world
       = Inr (Some [\<lparr>added_item = potion\<lparr>item_id := 10, item_quantity := Num 2\<rparr>, added_quantity = Num 2\<rparr>], ?w1)"
    by (simp add: item_eval)
  obtain r2 w2 where run2:
    "addItems exact no_veto bag_uuid [\<lparr>data_item = potion, data_quantity = Some (Num 3)\<rparr>] (JBool False) ?w1
       = Inr (Some r2, w2)"
    by (simp add: item_eval)
  have d: "docs bag_world bag_uuid = Some bag" by (simp add: bag_world_def)
  have empty: "doc_items bag = []" by (simp add: bag_def)
  from addItems_twice_merges [OF d empty refl refl refl run1 run2]
  obtain d2 where "docs w2 bag_uuid = Some d2"
    "doc_items d2 = [potion\<lparr>item_id := 10, item_quantity := Num 5\<rparr>]"
    by (auto simp: bag_world_def number_add_def exact_def)
  with run1 run2 show ?thesis by blast
qed

section \<open>Transferring items\<close>

lemmas trip_eval = round_trip_def item_eval party_world_def

text \<open>
  Claim C2 at a failing input. The hero holds one line of 5 potions and one of 3 arrows,
  the bag is empty, and the request names the potion line twice, for 3 and for 5. Both
  entries are read against the 5 the line had when the call began: the records report 3
  and 5 moved, the bag receives 8 potions in two lines and the hero's line is gone. The
  transfer back of exactly these records leaves the hero with potion lines of 3 and 5
  where there was one line of 5.
\<close>

theorem transferItems_same_line_twice:
  "map line_view (doc_items hero) = [(''Potion'', ''consumable'', Num 5), (''Arrow'', ''ammo'', Num 3)]
   \<and> doc_items bag = []
   \<and> map_option (\<lambda>(r1, w1, w2).
         (map added_quantity r1,
          map_option (\<lambda>d. map line_view (doc_items d)) (docs w1 hero_uuid),
          map_option (\<lambda>d. map line_view (doc_items d)) (docs w1 bag_uuid),
          map_option (\<lambda>d. map line_view (doc_items d)) (docs w2 hero_uuid),
          map_option (\<lambda>d. map line_view (doc_items d)) (docs w2 bag_uuid)))
        (round_trip exact no_veto hero_uuid bag_uuid
           [IdEntry 1 (Some (Num 3)), IdEntry 1 (Some (Num 5))] party_world)
     = Some ([Num 3, Num 5],
             Some [(''Arrow'', ''ammo'', Num 3)],
             Some [(''Potion'', ''consumable'', Num 3), (''Potion'', ''consumable'', Num 5)],
             Some [(''Arrow'', ''ammo'', Num 3), (''Potion'', ''consumable'', Num 3),
                   (''Potion'', ''consumable'', Num 5)],
             Some [])"
  by (simp add: trip_eval line_view_def)

text \<open>The first transfer completes and reports 3 and 5 potions moved out of a line of 5.\<close>

theorem transferItems_same_line_twice_witness:
  "\<exists>r1 w1 w2. round_trip exact no_veto hero_uuid bag_uuid
                 [IdEntry 1 (Some (Num 3)), IdEntry 1 (Some (Num 5))] party_world = Some (r1, w1, w2)
              \<and> map added_quantity r1 = [Num 3, Num 5]"
  using transferItems_same_line_twice
  by (cases "round_trip exact no_veto hero_uuid bag_uuid
               [IdEntry 1 (Some (Num 3)), IdEntry 1 (Some (Num 5))] party_world") auto


section \<open>Deleting the emptied pile\<close>






















lemmas vault_eval =
  item_eval transferAllItems_exec_def removeAttributes_exec_def addAttributes_exec_def
  transferAttributes_exec_def transferAllAttributes_exec_def transferEverything_exec_def
  attr_number_def fromEntries_def actor_update_def setAttributes_def getItemPileAttributes_def
  vault_world_def hoard_def hoard_uuid_def trove_def trove_uuid_def


text \<open>
  Outside the declared values: when deleteWhenEmpty is the name of a property every
  object inherits, the lookup of the table finds that property, and the emptied pile is
  deleted.
\<close>

lemma removeItems_inherited_key:
  "property_truthy (shouldDelete_lookup False (JStr ''toString''))
   \<and> (case removeItems_exec exact loot_uuid [\<lparr>req_id = 1, req_quantity = Num 5\<rparr>] False
             (vault_world (JStr ''toString'')) of
        Inl e \<Rightarrow> False
      | Inr (r, w') \<Rightarrow> docs w' loot_uuid = None)"
  by (simp add: vault_eval Object_prototype_keys_def)


end
